theory Spec2Isabelle
  imports Complex_Main "HOL-Library.Sublist"
begin

section \<open>Strings\<close>

text \<open>
  A Python \<open>str\<close> is a sequence of code points. The model uses \<open>string\<close>, a list of
  8-bit characters, read as the code points 0 to 255 (ASCII and Latin-1). A float is a
  rational number. Where no comparison depends on rounding (the complexity score, the
  consensus level, the approval score) the arithmetic is exact; the expert scores, whose
  comparison with the threshold and with each other does depend on it, are computed with
  the rounding of binary64 (see below).
\<close>

definition lower_char :: "char \<Rightarrow> char" where
  \<comment> \<open>\<open>str.lower\<close> on one code point below 256: A-Z and the Latin-1 capitals move by 32.\<close>
  "lower_char c =
     (let n = (of_char c :: nat)
      in if (65 \<le> n \<and> n \<le> 90) \<or> (192 \<le> n \<and> n \<le> 214) \<or> (216 \<le> n \<and> n \<le> 222)
         then char_of (n + 32) else c)"

definition lower :: "string \<Rightarrow> string" where
  "lower s = map lower_char s"

definition is_word_char :: "char \<Rightarrow> bool" where
  \<comment> \<open>The class \<open>\w\<close> of \<open>re\<close> on \<open>str\<close>: alphanumeric code points and the underscore.\<close>
  "is_word_char c =
     (let n = (of_char c :: nat)
      in (48 \<le> n \<and> n \<le> 57) \<or> (65 \<le> n \<and> n \<le> 90) \<or> n = 95 \<or> (97 \<le> n \<and> n \<le> 122)
         \<or> n = 170 \<or> n = 178 \<or> n = 179 \<or> n = 181 \<or> n = 185 \<or> n = 186
         \<or> (188 \<le> n \<and> n \<le> 190) \<or> (192 \<le> n \<and> n \<le> 214) \<or> (216 \<le> n \<and> n \<le> 246)
         \<or> 248 \<le> n)"

fun contains :: "string \<Rightarrow> string \<Rightarrow> bool" where
  \<comment> \<open>\<open>contains s k\<close> is Python's \<open>k in s\<close> on strings: \<open>k\<close> occurs as a substring.\<close>
  "contains [] k = (k = [])"
| "contains (c # cs) k = (prefix k (c # cs) \<or> contains cs k)"

subsection \<open>Counting the matches of a keyword pattern\<close>

text \<open>
  Every pattern of \<open>analyze_complexity\<close> has the shape \<open>\b(w1|...|wk)\b\<close> with non-empty
  words. \<open>re.findall\<close> scans from the left; at each position it needs a word boundary,
  then the first alternative that is a prefix of the rest and ends at a word boundary;
  after a match the scan goes on behind the match. \<open>findall_count\<close> returns the length of
  the list \<open>re.findall\<close> builds. The argument \<open>prev\<close> is the character before the position
  (\<open>None\<close> at the start), \<open>skip\<close> the number of characters still covered by the last match.
\<close>

definition is_word :: "char option \<Rightarrow> bool" where
  "is_word x = (case x of None \<Rightarrow> False | Some c \<Rightarrow> is_word_char c)"

definition at_boundary :: "char option \<Rightarrow> char option \<Rightarrow> bool" where
  "at_boundary prev nxt = (is_word prev \<noteq> is_word nxt)"

definition head_opt :: "string \<Rightarrow> char option" where
  "head_opt s = (case s of [] \<Rightarrow> None | c # _ \<Rightarrow> Some c)"

fun first_alt :: "string list \<Rightarrow> string \<Rightarrow> string option" where
  "first_alt [] s = None"
| "first_alt (w # ws) s =
     (if w \<noteq> [] \<and> prefix w s \<and> at_boundary (Some (last w)) (head_opt (drop (length w) s))
      then Some w else first_alt ws s)"

definition match_at :: "string list \<Rightarrow> char option \<Rightarrow> string \<Rightarrow> string option" where
  "match_at alts prev s = (if at_boundary prev (head_opt s) then first_alt alts s else None)"

fun findall_count :: "string list \<Rightarrow> nat \<Rightarrow> char option \<Rightarrow> string \<Rightarrow> nat" where
  "findall_count alts skip prev [] = 0"
| "findall_count alts skip prev (c # cs) =
     (if 0 < skip then findall_count alts (skip - 1) (Some c) cs
      else case match_at alts prev (c # cs) of
             Some w \<Rightarrow> Suc (findall_count alts (length w - 1) (Some c) cs)
           | None \<Rightarrow> findall_count alts 0 (Some c) cs)"

definition count_keywords :: "string list \<Rightarrow> string \<Rightarrow> nat" where
  "count_keywords alts s = findall_count alts 0 None s"

section \<open>The meta-orchestrator\<close>

datatype OrchestrationPattern =
  SEQUENTIAL | CONCURRENT | GROUP_CHAT | MAKER_CHECKER | HANDOFF | HIERARCHICAL

subsection \<open>Complexity analysis\<close>

record complexity_indicators =
  multi_domain :: nat
  technical_terms :: nat
  action_verbs :: nat
  scope_indicators :: nat

definition indicators_of :: "string \<Rightarrow> complexity_indicators" where
  "indicators_of request =
     \<lparr> multi_domain =
         count_keywords [''react'', ''python'', ''database'', ''docker'', ''test''] (lower request),
       technical_terms =
         count_keywords [''api'', ''database'', ''frontend'', ''backend'', ''deploy''] (lower request),
       action_verbs =
         count_keywords [''build'', ''create'', ''implement'', ''design'', ''develop''] (lower request),
       scope_indicators =
         count_keywords [''system'', ''platform'', ''application'', ''solution''] (lower request) \<rparr>"

definition score_of_indicators :: "complexity_indicators \<Rightarrow> rat" where
  \<comment> \<open>\<open>sum(complexity_indicators.values()) / 4.0\<close>\<close>
  "score_of_indicators ci =
     of_nat (multi_domain ci + technical_terms ci + action_verbs ci + scope_indicators ci) / 4"

definition analyze_complexity :: "string \<Rightarrow> rat \<times> OrchestrationPattern" where
  "analyze_complexity request =
     (let score = score_of_indicators (indicators_of request)
      in if score \<ge> 3 then (score, HIERARCHICAL)
         else if score \<ge> 2 then (score, CONCURRENT)
         else if score \<ge> 1 then (score, SEQUENTIAL)
         else (score, HANDOFF))"

subsection \<open>Errors and small helpers\<close>

datatype error =
  KeyError string | IndexError | ZeroDivisionError | ValueError string | WorkerError string

fun str_of_error :: "error \<Rightarrow> string" where
  \<comment> \<open>\<open>str(e)\<close>; a \<open>KeyError\<close> prints its key quoted.\<close>
  "str_of_error (KeyError k) = [CHR 0x27] @ k @ [CHR 0x27]"
| "str_of_error IndexError = ''list index out of range''"
| "str_of_error ZeroDivisionError = ''division by zero''"
| "str_of_error (ValueError m) = m"
| "str_of_error (WorkerError m) = m"

definition digit_char :: "nat \<Rightarrow> char" where
  "digit_char d = char_of (48 + d)"

function str_nat :: "nat \<Rightarrow> string" where
  \<comment> \<open>\<open>str(n)\<close> for a non-negative integer\<close>
  "str_nat n = (if n < 10 then [digit_char n] else str_nat (n div 10) @ [digit_char (n mod 10)])"
  by pat_completeness auto
termination
  by (relation "measure id") auto

declare str_nat.simps [simp del]

subsection \<open>The expert library\<close>

text \<open>
  An entry of the library keeps the fields the modelled functions read: the keyword and
  capability lists (the dictionary keys \<open>keywords\<close> and \<open>capabilities\<close>), and
  \<open>name\<close>, which only custom experts have (the functions read it
  with \<open>expert_data.get("name")\<close>). A dictionary that is iterated is an association list
  in insertion order.
\<close>

record expert_data =
  name :: "string option"
  keyword_list :: "string list"
  capabilities :: "string list"

definition load_expert_library :: "(string \<times> expert_data) list" where
  \<comment> \<open>\<open>_load_expert_library\<close>\<close>
  "load_expert_library =
    [(''react-expert'',
       \<lparr> name = None,
         keyword_list = [''react'', ''hooks'', ''components'', ''jsx'', ''useState'', ''useEffect''],
         capabilities = [''component_development'', ''state_management'', ''hooks_optimization''] \<rparr>),
     (''vue-expert'',
       \<lparr> name = None,
         keyword_list = [''vue'', ''v-model'', ''vuex'', ''vue router''],
         capabilities = [''vue_components'', ''vuex_store'', ''vue_composition''] \<rparr>),
     (''angular-expert'',
       \<lparr> name = None,
         keyword_list = [''angular'', ''modules'', ''services'', ''decorators''],
         capabilities = [''angular_modules'', ''dependency_injection'', ''services''] \<rparr>),
     (''backend-architect'',
       \<lparr> name = None,
         keyword_list = [''architecture'', ''system design'', ''microservices'', ''scalability''],
         capabilities = [''system_architecture'', ''api_design'', ''scalability_planning''] \<rparr>),
     (''python-expert'',
       \<lparr> name = None,
         keyword_list = [''python'', ''django'', ''flask'', ''fastapi''],
         capabilities = [''python_development'', ''django_apps'', ''api_development''] \<rparr>),
     (''postgres-expert'',
       \<lparr> name = None,
         keyword_list = [''postgresql'', ''psql'', ''postgres'', ''sql''],
         capabilities = [''database_design'', ''query_optimization'', ''performance_tuning''] \<rparr>),
     (''docker-expert'',
       \<lparr> name = None,
         keyword_list = [''docker'', ''containers'', ''dockerfile''],
         capabilities = [''containerization'', ''docker_optimization'', ''multi_stage_builds''] \<rparr>)]"

subsection \<open>The orchestrator's state\<close>

text \<open>
  Of a performance record the model keeps the numeric fields, of a session its
  \<open>expertise_cache\<close> with the two keys that \<open>_calculate_expert_score\<close> reads (both may
  be absent) and the interaction count.
\<close>

record ExpertPerformance =
  response_quality :: rat
  task_completion_rate :: rat
  user_satisfaction :: rat
  collaboration_score :: rat
  switching_efficiency :: rat
  total_tasks :: nat

record session_context =
  preferred_experts :: "string list option"
  recent_experts :: "string list option"

record ExpertMemory =
  expertise_cache :: session_context
  interaction_count :: nat

record MetaOrchestrator =
  active_sessions :: "string \<rightharpoonup> ExpertMemory"
  expert_performance :: "string \<rightharpoonup> ExpertPerformance"
  expert_library :: "(string \<times> expert_data) list"

definition init_orchestrator :: MetaOrchestrator where
  \<comment> \<open>\<open>MetaOrchestrator.__init__\<close>\<close>
  "init_orchestrator =
     \<lparr> active_sessions = Map.empty, expert_performance = Map.empty,
       expert_library = load_expert_library \<rparr>"

subsection \<open>Task decomposition\<close>

text \<open>
  A subtask is a dictionary; its key \<open>id\<close> is only written by the last loop of each
  builder, so the field is optional and reading it before that loop is a \<open>KeyError\<close>.
\<close>

record subtask =
  subtask_id :: "string option"
  level :: nat
  subtask_type :: string
  expert :: string
  description :: string
  dependencies :: "string list"
  estimated_time :: nat

record TaskDecomposition =
  original_request :: string
  complexity_score :: rat
  estimated_duration :: nat
  required_experts :: "string list"
  subtasks :: "subtask list"
  orchestration_pattern :: OrchestrationPattern

fun collect_ids :: "(subtask \<Rightarrow> bool) \<Rightarrow> subtask list \<Rightarrow> error + string list" where
  \<comment> \<open>the comprehension \<open>[s["id"] for s in subtasks if P s]\<close>\<close>
  "collect_ids P [] = Inr []"
| "collect_ids P (s # ss) =
     (if P s then
        (case subtask_id s of
           None \<Rightarrow> Inl (KeyError ''id'')
         | Some i \<Rightarrow> (case collect_ids P ss of Inl e \<Rightarrow> Inl e | Inr is \<Rightarrow> Inr (i # is)))
      else collect_ids P ss)"

definition assign_ids :: "string \<Rightarrow> subtask list \<Rightarrow> subtask list" where
  \<comment> \<open>\<open>for i, subtask in enumerate(subtasks): subtask["id"] = f"<pre>{i+1}"\<close>\<close>
  "assign_ids pre ss =
     map (\<lambda>(i, s). s\<lparr>subtask_id := Some (pre @ str_nat (i + 1))\<rparr>) (enumerate 0 ss)"

fun add_development :: "subtask list \<Rightarrow> string list \<Rightarrow> error + subtask list" where
  \<comment> \<open>the level-2 loop of \<open>_create_hierarchical_subtasks\<close>\<close>
  "add_development ss [] = Inr ss"
| "add_development ss (e # es) =
     (if e \<in> set [''react-expert'', ''python-expert'', ''nodejs-expert''] then
        (case collect_ids (\<lambda>s. level s = 1) ss of
           Inl err \<Rightarrow> Inl err
         | Inr deps \<Rightarrow>
             add_development
               (ss @ [\<lparr> subtask_id = None, level = 2, subtask_type = ''development'', expert = e,
                        description = ''Core development using '' @ e,
                        dependencies = deps, estimated_time = 30 \<rparr>]) es)
      else add_development ss es)"

definition create_hierarchical_subtasks :: "string \<Rightarrow> string list \<Rightarrow> error + subtask list" where
  "create_hierarchical_subtasks request experts =
     (let ss1 =
            (if list_ex (\<lambda>e. e \<in> set experts) [''backend-architect'', ''architect'', ''pm'']
             then [\<lparr> subtask_id = None, level = 1, subtask_type = ''planning'',
                      expert = ''backend-architect'',
                      description = ''System architecture and technical planning'',
                      dependencies = [], estimated_time = 20 \<rparr>]
             else [])
      in case add_development ss1 experts of
           Inl err \<Rightarrow> Inl err
         | Inr ss2 \<Rightarrow>
             if list_ex (\<lambda>e. e \<in> set experts) [''jest-expert'', ''cypress-expert'']
             then (case collect_ids (\<lambda>s. level s = 2) ss2 of
                     Inl err \<Rightarrow> Inl err
                   | Inr deps \<Rightarrow>
                       Inr (assign_ids ''subtask_''
                              (ss2 @ [\<lparr> subtask_id = None, level = 3, subtask_type = ''testing'',
                                        expert = ''jest-expert'',
                                        description = ''Integration testing and quality assurance'',
                                        dependencies = deps, estimated_time = 25 \<rparr>])))
             else Inr (assign_ids ''subtask_'' ss2))"

definition create_concurrent_subtasks :: "string \<Rightarrow> string list \<Rightarrow> error + subtask list" where
  \<comment> \<open>the aggregation task reads \<open>subtasks[:-1]\<close> before it is appended and before any id is set\<close>
  "create_concurrent_subtasks request experts =
     (let ss = map (\<lambda>e. \<lparr> subtask_id = None, level = 1, subtask_type = ''parallel'', expert = e,
                             description = ''Parallel analysis using '' @ e,
                             dependencies = [], estimated_time = 15 \<rparr>) experts
      in case collect_ids (\<lambda>s. True) (butlast ss) of
           Inl err \<Rightarrow> Inl err
         | Inr deps \<Rightarrow>
             Inr (assign_ids ''concurrent_''
                    (ss @ [\<lparr> subtask_id = None, level = 2, subtask_type = ''aggregation'',
                             expert = ''backend-architect'',
                             description = ''Aggregate results from concurrent expert analysis'',
                             dependencies = deps, estimated_time = 10 \<rparr>])))"

definition expert_order :: "string list \<Rightarrow> string list" where
  \<comment> \<open>the ordering loop of \<open>_create_sequential_subtasks\<close>\<close>
  "expert_order experts =
     fold (\<lambda>e order. if e \<noteq> ''backend-architect'' \<and> e \<notin> set order then order @ [e] else order)
       experts
       (if ''backend-architect'' \<in> set experts then [''backend-architect''] else [])"

definition create_sequential_subtasks :: "string \<Rightarrow> string list \<Rightarrow> subtask list" where
  \<comment> \<open>no step of this builder can raise: the dependencies are built from the index alone\<close>
  "create_sequential_subtasks request experts =
     assign_ids ''sequential_''
       (map (\<lambda>(i, e). \<lparr> subtask_id = None, level = 1, subtask_type = ''sequential'', expert = e,
                          description = ''Sequential processing by '' @ e,
                          dependencies = map (\<lambda>k. ''sequential_'' @ str_nat k) [1..<i + 1],
                          estimated_time = 20 \<rparr>)
          (enumerate 0 (expert_order experts)))"

definition decompose_task ::
  "MetaOrchestrator \<Rightarrow> string \<Rightarrow> OrchestrationPattern \<Rightarrow> error + TaskDecomposition" where
  "decompose_task self request pattern =
     (let score = fst (analyze_complexity request);
          required = map fst (filter (\<lambda>(n, d). list_ex (contains (lower request)) (keyword_list d))
                              (expert_library self));
          built =
            (if pattern = HIERARCHICAL then create_hierarchical_subtasks request required
             else if pattern = CONCURRENT then create_concurrent_subtasks request required
             else if pattern = SEQUENTIAL then Inr (create_sequential_subtasks request required)
             else Inr [])
      in case built of
           Inl err \<Rightarrow> Inl err
         | Inr ss \<Rightarrow>
             Inr \<lparr> original_request = request, complexity_score = score,
                   estimated_duration = length ss * 15, required_experts = required,
                   subtasks = ss, orchestration_pattern = pattern \<rparr>)"

subsection \<open>Binary64 arithmetic\<close>

text \<open>
  Python's \<open>float\<close> is IEEE 754 binary64. A finite double is modelled by the rational
  it denotes, and each operation returns the exact result rounded to the nearest double,
  ties to the even significand. \<open>rnd\<close> does this rounding for the normal range (53
  significant bits); overflow, subnormal numbers, infinities and NaN are not modelled:
  the scores below lie between 0 and a few hundred. A literal such as \<open>0.4\<close> is
  \<open>rnd (4 / 10)\<close>.
\<close>

definition pow2 :: "int \<Rightarrow> rat" where
  "pow2 e = (if 0 \<le> e then 2 ^ nat e else 1 / 2 ^ nat (- e))"

function ilog2 :: "int \<Rightarrow> nat" where
  \<comment> \<open>the position of the leading bit of a positive integer\<close>
  "ilog2 n = (if n < 2 then 0 else Suc (ilog2 (n div 2)))"
  by pat_completeness auto
termination
  by (relation "measure nat") auto

declare ilog2.simps [simp del]

definition exponent_of :: "rat \<Rightarrow> int" where
  \<comment> \<open>for \<open>x \<noteq> 0\<close>, the \<open>e\<close> with \<open>2 ^ e \<le> \<bar>x\<bar> < 2 ^ (e + 1)\<close>\<close>
  "exponent_of x =
     (let (p, q) = quotient_of \<bar>x\<bar>;
          d = int (ilog2 p) - int (ilog2 q)
      in if pow2 d \<le> \<bar>x\<bar> then d else d - 1)"

definition round_half_even :: "rat \<Rightarrow> int" where
  "round_half_even q =
     (let f = \<lfloor>q\<rfloor>; r = q - of_int f
      in if r < 1 / 2 then f else if 1 / 2 < r then f + 1
         else if f mod 2 = 0 then f else f + 1)"

definition rnd :: "rat \<Rightarrow> rat" where
  "rnd x =
     (if x = 0 then 0
      else let u = pow2 (exponent_of x - 52) in of_int (round_half_even (x / u)) * u)"

definition fadd :: "rat \<Rightarrow> rat \<Rightarrow> rat" where
  "fadd a b = rnd (a + b)"

definition fmul :: "rat \<Rightarrow> rat \<Rightarrow> rat" where
  "fmul a b = rnd (a * b)"

definition fdiv :: "rat \<Rightarrow> rat \<Rightarrow> rat" where
  "fdiv a b = rnd (a / b)"

subsection \<open>Expert selection\<close>

fun split_on :: "char \<Rightarrow> string \<Rightarrow> string list" where
  \<comment> \<open>\<open>s.split(sep)\<close> for a one-character separator: empty pieces are kept\<close>
  "split_on sep [] = [[]]"
| "split_on sep (c # cs) =
     (if c = sep then [] # split_on sep cs
      else (case split_on sep cs of w # ws \<Rightarrow> (c # w) # ws | [] \<Rightarrow> [[c]]))"

definition name_in :: "expert_data \<Rightarrow> string list \<Rightarrow> bool" where
  \<comment> \<open>\<open>expert_data.get("name") in xs\<close>: an entry without a name yields \<open>None\<close>, never in a list of strings\<close>
  "name_in d xs = (case name d of None \<Rightarrow> False | Some n \<Rightarrow> n \<in> set xs)"

definition calculate_expert_score :: "string \<Rightarrow> expert_data \<Rightarrow> session_context \<Rightarrow> error + rat" where
  \<comment> \<open>each division raises \<open>ZeroDivisionError\<close> on an empty list; every operation rounds\<close>
  "calculate_expert_score request d ctx =
     (let request_lower = lower request;
          score0 = 0;
          keyword_matches = length (filter (contains request_lower) (keyword_list d))
      in if length (keyword_list d) = 0 then Inl ZeroDivisionError
         else
           let keyword_score = fdiv (of_nat keyword_matches) (of_nat (length (keyword_list d)));
               score1 = fadd score0 (fmul keyword_score (rnd (4 / 10)));
               capability_matches =
                 length (filter (\<lambda>capability.
                           list_ex (contains request_lower) (split_on (CHR ''_'') capability))
                         (capabilities d))
           in if length (capabilities d) = 0 then Inl ZeroDivisionError
              else
                let capability_score =
                      fdiv (of_nat capability_matches) (of_nat (length (capabilities d)));
                    score2 = fadd score1 (fmul capability_score (rnd (3 / 10)));
                    score3 =
                      (case preferred_experts ctx of
                         None \<Rightarrow> score2
                       | Some ps \<Rightarrow>
                           fadd score2 (fmul (if name_in d ps then 1 else 0) (rnd (2 / 10))));
                    score4 =
                      (case recent_experts ctx of
                         None \<Rightarrow> score3
                       | Some rs \<Rightarrow>
                           fadd score3
                             (fmul (if name_in d (drop (length rs - 3) rs) then 1 else 0)
                                (rnd (1 / 10))))
                in Inr (min score4 1))"

fun score_all ::
  "string \<Rightarrow> session_context \<Rightarrow> (string \<times> expert_data) list \<Rightarrow> error + (string \<times> rat) list" where
  \<comment> \<open>the first loop of \<open>select_experts\<close>; the first failing entry ends it\<close>
  "score_all request ctx [] = Inr []"
| "score_all request ctx ((expert_name, d) # rest) =
     (case calculate_expert_score request d ctx of
        Inl e \<Rightarrow> Inl e
      | Inr score \<Rightarrow>
          (case score_all request ctx rest of
             Inl e \<Rightarrow> Inl e
           | Inr scores \<Rightarrow> Inr ((expert_name, score) # scores)))"

definition performance_modifier :: "ExpertPerformance \<Rightarrow> rat" where
  \<comment> \<open>the sum is evaluated from the left; the fields of the record are doubles\<close>
  "performance_modifier perf =
     fdiv (fadd (fadd (fadd (fmul (response_quality perf) (rnd (3 / 10)))
                            (fmul (task_completion_rate perf) (rnd (3 / 10))))
                      (fmul (collaboration_score perf) (rnd (2 / 10))))
                (fmul (switching_efficiency perf) (rnd (2 / 10))))
          100"

definition apply_modifier :: "(string \<rightharpoonup> ExpertPerformance) \<Rightarrow> string \<times> rat \<Rightarrow> string \<times> rat" where
  "apply_modifier perfs x =
     (case perfs (fst x) of
        None \<Rightarrow> x
      | Some perf \<Rightarrow> (fst x, fmul (snd x) (performance_modifier perf)))"

definition context_of :: "MetaOrchestrator \<Rightarrow> string option \<Rightarrow> session_context" where
  \<comment> \<open>\<open>if session_id and session_id in self.active_sessions\<close>; otherwise the empty dictionary\<close>
  "context_of self session_id =
     (case session_id of
        None \<Rightarrow> \<lparr>preferred_experts = None, recent_experts = None\<rparr>
      | Some sid \<Rightarrow>
          (if sid \<noteq> [] then
             (case active_sessions self sid of
                None \<Rightarrow> \<lparr>preferred_experts = None, recent_experts = None\<rparr>
              | Some m \<Rightarrow> expertise_cache m)
           else \<lparr>preferred_experts = None, recent_experts = None\<rparr>))"

definition adjusted_scores ::
  "MetaOrchestrator \<Rightarrow> string \<Rightarrow> string option \<Rightarrow> error + (string \<times> rat) list" where
  \<comment> \<open>the dictionary \<open>expert_scores\<close> after the performance modifiers are applied\<close>
  "adjusted_scores self request session_id =
     (case score_all request (context_of self session_id) (expert_library self) of
        Inl e \<Rightarrow> Inl e
      | Inr expert_scores \<Rightarrow> Inr (map (apply_modifier (expert_performance self)) expert_scores))"

definition select_experts :: "MetaOrchestrator \<Rightarrow> string \<Rightarrow> string option \<Rightarrow> error + string list" where
  \<comment> \<open>\<open>sorted(..., reverse=True)\<close> is stable: equal scores keep their order; so is \<open>sort_key\<close>\<close>
  "select_experts self request session_id =
     (case adjusted_scores self request session_id of
        Inl e \<Rightarrow> Inl e
      | Inr expert_scores \<Rightarrow>
          (let sorted_experts = sort_key (\<lambda>x. - snd x) expert_scores;
               threshold = rnd (3 / 10);
               selected_experts = map fst (filter (\<lambda>x. snd x > threshold) sorted_experts)
           in Inr (take 5 selected_experts)))"

subsection \<open>Custom experts\<close>

text \<open>
  \<open>create_custom_expert\<close> stores the new entry under \<open>custom_\<close> followed by eight
  hexadecimal digits of a random UUID; the digits are an argument. The user's skills
  become the entry's keywords and the tools its capabilities, whatever their length.
  Assigning to a dictionary key replaces the value in place or appends a new key.
\<close>

record expert_config =
  config_name :: string
  skills :: "string list"
  tools :: "string list"
  personality :: string

fun dict_set :: "string \<Rightarrow> 'v \<Rightarrow> (string \<times> 'v) list \<Rightarrow> (string \<times> 'v) list" where
  "dict_set k v [] = [(k, v)]"
| "dict_set k v (x # xs) = (if fst x = k then (k, v) # xs else x # dict_set k v xs)"

definition create_custom_expert ::
  "MetaOrchestrator \<Rightarrow> string \<Rightarrow> expert_config \<Rightarrow> string \<times> MetaOrchestrator" where
  "create_custom_expert self hex8 cfg =
     (let expert_id = ''custom_'' @ hex8;
          custom_expert = \<lparr> name = Some (config_name cfg), keyword_list = skills cfg,
                            capabilities = tools cfg \<rparr>
      in (expert_id,
          self\<lparr>expert_library := dict_set expert_id custom_expert (expert_library self)\<rparr>))"

subsection \<open>Circuit breakers\<close>

text \<open>
  \<open>datetime.now()\<close> is an argument: a point in time is a number of microseconds. The
  attribute \<open>seconds\<close> of a \<open>timedelta\<close> is the seconds part of its normalised form
  (days, seconds in 0..86399, microseconds), not the total number of seconds.
\<close>

datatype breaker_state = CLOSED | OPEN | HALF_OPEN

record breaker =
  failures :: nat
  last_failure :: "int option"
  state :: breaker_state

record ResilienceManager =
  circuit_breakers :: "string \<rightharpoonup> breaker"

definition timedelta_seconds :: "int \<Rightarrow> int" where
  "timedelta_seconds d = (d mod 86400000000) div 1000000"

definition breaker_of :: "ResilienceManager \<Rightarrow> string \<Rightarrow> breaker" where
  \<comment> \<open>the entry of the worker, created closed when absent\<close>
  "breaker_of self expert_name =
     (case circuit_breakers self expert_name of
        None \<Rightarrow> \<lparr>failures = 0, last_failure = None, state = CLOSED\<rparr>
      | Some b \<Rightarrow> b)"

definition check_circuit_breaker :: "ResilienceManager \<Rightarrow> string \<Rightarrow> int \<Rightarrow> bool \<times> ResilienceManager" where
  "check_circuit_breaker self expert_name now =
     (let breaker = breaker_of self expert_name
      in if state breaker = OPEN then
           (case last_failure breaker of
              Some t \<Rightarrow>
                if timedelta_seconds (now - t) > 60
                then (True, self\<lparr>circuit_breakers :=
                              (circuit_breakers self)(expert_name \<mapsto> breaker\<lparr>state := HALF_OPEN\<rparr>)\<rparr>)
                else (False, self\<lparr>circuit_breakers := (circuit_breakers self)(expert_name \<mapsto> breaker)\<rparr>)
            | None \<Rightarrow>
                (False, self\<lparr>circuit_breakers := (circuit_breakers self)(expert_name \<mapsto> breaker)\<rparr>))
         else (True, self\<lparr>circuit_breakers := (circuit_breakers self)(expert_name \<mapsto> breaker)\<rparr>))"

definition record_failure :: "ResilienceManager \<Rightarrow> string \<Rightarrow> int \<Rightarrow> ResilienceManager" where
  "record_failure self expert_name now =
     (let breaker = breaker_of self expert_name;
          breaker1 = breaker\<lparr>failures := failures breaker + 1, last_failure := Some now\<rparr>;
          breaker2 = (if failures breaker1 \<ge> 3 then breaker1\<lparr>state := OPEN\<rparr> else breaker1)
      in self\<lparr>circuit_breakers := (circuit_breakers self)(expert_name \<mapsto> breaker2)\<rparr>)"

text \<open>A history of calls for one worker, each with the time at which it happens.\<close>

datatype breaker_call = Check int | Failure int

fun apply_call :: "string \<Rightarrow> breaker_call \<Rightarrow> ResilienceManager \<Rightarrow> ResilienceManager" where
  "apply_call expert_name (Check now) self = snd (check_circuit_breaker self expert_name now)"
| "apply_call expert_name (Failure now) self = record_failure self expert_name now"

fun is_failure :: "breaker_call \<Rightarrow> bool" where
  "is_failure (Failure now) = True"
| "is_failure (Check now) = False"

definition run_calls :: "string \<Rightarrow> breaker_call list \<Rightarrow> ResilienceManager \<Rightarrow> ResilienceManager" where
  "run_calls expert_name calls self = fold (apply_call expert_name) calls self"

section \<open>The conversation engine\<close>

datatype ConversationPattern =
  SEQUENTIAL_CHAIN | CONCURRENT_PROCESSING | GROUP_CHAT_DEBATE | MAKER_CHECKER_LOOP
  | HANDOFF_ROUTING | HIERARCHICAL_COORDINATION

fun str_of_pattern :: "ConversationPattern \<Rightarrow> string" where
  \<comment> \<open>how an f-string prints a member of the enumeration\<close>
  "str_of_pattern SEQUENTIAL_CHAIN = ''ConversationPattern.SEQUENTIAL_CHAIN''"
| "str_of_pattern CONCURRENT_PROCESSING = ''ConversationPattern.CONCURRENT_PROCESSING''"
| "str_of_pattern GROUP_CHAT_DEBATE = ''ConversationPattern.GROUP_CHAT_DEBATE''"
| "str_of_pattern MAKER_CHECKER_LOOP = ''ConversationPattern.MAKER_CHECKER_LOOP''"
| "str_of_pattern HANDOFF_ROUTING = ''ConversationPattern.HANDOFF_ROUTING''"
| "str_of_pattern HIERARCHICAL_COORDINATION = ''ConversationPattern.HIERARCHICAL_COORDINATION''"

datatype thread_status = active | completed | failed | paused

record ConversationMessage =
  expert_name :: string
  content :: string
  confidence :: rat

record ConversationThread =
  id' :: string
  topic :: string
  pattern :: ConversationPattern
  participants :: "string list"
  messages :: "ConversationMessage list"
  status :: thread_status

record ConversationResult =
  thread_id :: string
  final_response :: string
  participating_experts :: "string list"
  consensus_level :: rat
  message_count :: nat
  success :: bool
  quality_metrics :: "(string \<times> rat) list"

record MultiAgentConversationEngine =
  active_threads :: "string \<rightharpoonup> ConversationThread"
  conversation_history :: "ConversationResult list"

subsection \<open>Consensus\<close>

text \<open>A response is a dictionary; \<open>r.get("confidence", 0.8)\<close> reads a key that may be absent.\<close>

record response =
  response_expert :: string
  response_content :: string
  response_confidence :: "rat option"

definition calculate_consensus_level :: "response list \<Rightarrow> rat" where
  "calculate_consensus_level responses =
     (if length responses < 2 then 1
      else
        let confidences = map (\<lambda>r. case response_confidence r of None \<Rightarrow> 8 / 10 | Some c \<Rightarrow> c)
                            responses;
            avg_confidence = sum_list confidences / of_nat (length confidences);
            agreement_factor = min (of_nat (length responses) / 5) 1
        in avg_confidence * agreement_factor)"

subsection \<open>The maker-checker loop\<close>

definition generate_expert_specific_response :: "string \<Rightarrow> string \<Rightarrow> string" where
  \<comment> \<open>the templates of the source; its third argument, the context, is never read\<close>
  "generate_expert_specific_response e request =
     (if e = ''react-expert'' then
        ''As a React expert, I'll implement a modern React solution using hooks, functional components, and best practices. For your request: '' @ request
      else if e = ''backend-architect'' then
        ''As a backend architect, I'll design a scalable and maintainable system architecture. For your request: '' @ request
      else if e = ''python-expert'' then
        ''As a Python expert, I'll leverage Python's ecosystem and best practices. For your request: '' @ request
      else if e = ''database-expert'' then
        ''As a database expert, I'll optimize the data layer for performance and scalability. For your request: '' @ request
      else if e = ''docker-expert'' then
        ''As a Docker expert, I'll create optimized containerization strategies. For your request: '' @ request
      else if e = ''testing-expert'' then
        ''As a testing expert, I'll ensure comprehensive test coverage. For your request: '' @ request
      else ''As a '' @ e @ '', I'll provide expert guidance for: '' @ request)"

definition positive_count :: "string \<Rightarrow> nat" where
  "positive_count review_content =
     length (filter (contains (lower review_content))
       [''approved'', ''good'', ''excellent'', ''perfect'', ''complete'', ''ready''])"

definition negative_count :: "string \<Rightarrow> nat" where
  "negative_count review_content =
     length (filter (contains (lower review_content))
       [''needs'', ''improve'', ''fix'', ''change'', ''incomplete'', ''missing''])"

definition extract_approval_score :: "string \<Rightarrow> rat" where
  "extract_approval_score review_content =
     (let total_keywords = positive_count review_content + negative_count review_content
      in if total_keywords = 0 then 8 / 10
         else max 0 (min 1 (of_nat (positive_count review_content) / of_nat total_keywords)))"

record feedback =
  iteration :: nat
  maker_response :: string
  checker_response :: string
  approval_score :: rat

definition review_round :: "string \<Rightarrow> string \<Rightarrow> string \<Rightarrow> nat \<Rightarrow> feedback" where
  \<comment> \<open>the body of the loop: the maker answers the topic, the checker reviews the answer\<close>
  "review_round topic' maker checker iteration_count =
     (let maker_content = generate_expert_specific_response maker topic';
          checker_content = generate_expert_specific_response checker
                              (''Please review this solution: '' @ maker_content)
      in \<lparr> iteration = iteration_count, maker_response = maker_content,
            checker_response = checker_content,
            approval_score = extract_approval_score checker_content \<rparr>)"

function maker_checker_iterations ::
  "string \<Rightarrow> string \<Rightarrow> string \<Rightarrow> nat \<Rightarrow> feedback list \<Rightarrow> nat \<times> feedback list" where
  \<comment> \<open>\<open>while iteration_count < max_iterations\<close> with \<open>max_iterations = 3\<close> and the \<open>break\<close> on approval\<close>
  "maker_checker_iterations topic' maker checker iteration_count feedback_history =
     (if iteration_count < 3 then
        (if approval_score (review_round topic' maker checker (iteration_count + 1)) \<ge> 8 / 10
         then (iteration_count + 1,
               feedback_history @ [review_round topic' maker checker (iteration_count + 1)])
         else maker_checker_iterations topic' maker checker (iteration_count + 1)
                (feedback_history @ [review_round topic' maker checker (iteration_count + 1)]))
      else (iteration_count, feedback_history))"
  by pat_completeness auto
termination
  by (relation "measure (\<lambda>(t, m, c, n, h). 3 - n)") auto

declare maker_checker_iterations.simps [simp del]

definition maker_checker_roles :: "string list \<Rightarrow> string \<times> string" where
  "maker_checker_roles ps =
     (if length ps < 2 then
        (let maker = (case ps of [] \<Rightarrow> ''backend-architect'' | p # _ \<Rightarrow> p) in (maker, maker))
      else (ps ! 0, ps ! 1))"

definition calculate_improvement_rate :: "feedback list \<Rightarrow> rat" where
  "calculate_improvement_rate feedback_history =
     (if length feedback_history < 2 then 0
      else max 0 (approval_score (last feedback_history) - approval_score (hd feedback_history)))"

definition maker_checker_loop_conversation :: "ConversationThread \<Rightarrow> error + ConversationResult" where
  \<comment> \<open>\<open>feedback_history[-1]\<close> raises \<open>IndexError\<close> on an empty history\<close>
  "maker_checker_loop_conversation thread =
     (let (maker, checker) = maker_checker_roles (participants thread);
          (iteration_count, feedback_history) =
             maker_checker_iterations (topic thread) maker checker 0 []
      in if feedback_history = [] then Inl IndexError
         else
           let final = last feedback_history;
               final_response' =
                 (if approval_score final \<ge> 8 / 10
                  then maker_response final @ [CHR 0x0A, CHR 0x0A] @ ''[Approved by '' @ checker
                       @ '' after '' @ str_nat iteration_count @ '' iterations]''
                  else maker_response final @ [CHR 0x0A, CHR 0x0A]
                       @ ''[Completed after 3 iterations with best effort]'')
           in Inr \<lparr> thread_id = id' thread, final_response = final_response',
                    participating_experts = [maker, checker],
                    consensus_level = approval_score final,
                    message_count = iteration_count * 2, success = True,
                    quality_metrics =
                      [(''iterations_required'', of_nat iteration_count),
                       (''final_approval_score'', approval_score final),
                       (''improvement_rate'', calculate_improvement_rate feedback_history)] \<rparr>)"

subsection \<open>Starting a conversation\<close>

text \<open>
  The sequential, concurrent and debate strategies call the workers and draw random
  confidences; here each is a given function from the thread to the way it ends and to
  the thread's message list as it leaves it (a strategy assigns no other field of the
  thread). A strategy ends in one of three ways: it returns a result, it raises an
  exception derived from \<open>Exception\<close>, or an exception that is only a \<open>BaseException\<close>
  leaves it: every strategy awaits \<open>asyncio.sleep\<close>, where a cancellation of the task
  raises \<open>asyncio.CancelledError\<close>. For the maker-checker strategy, which is modelled
  above, \<open>maker_checker_interrupt\<close> says whether such an exception arrives while it
  waits. \<open>start_conversation\<close> itself, its dispatch on the pattern, its handler and its
  updates of the engine are modelled in full. The fresh thread id (a random UUID in the
  source) is an argument.
\<close>

datatype base_exception = CancelledError | KeyboardInterrupt | SystemExit

datatype outcome = Returned ConversationResult | Raised error | Propagated base_exception

record strategies =
  sequential_chain_conversation ::
    "ConversationThread \<Rightarrow> outcome \<times> ConversationMessage list"
  concurrent_processing_conversation ::
    "ConversationThread \<Rightarrow> outcome \<times> ConversationMessage list"
  group_chat_debate_conversation ::
    "ConversationThread \<Rightarrow> outcome \<times> ConversationMessage list"
  maker_checker_interrupt :: "base_exception option"

definition new_thread :: "string \<Rightarrow> string \<Rightarrow> ConversationPattern \<Rightarrow> string list \<Rightarrow> ConversationThread" where
  "new_thread new_id request p selected_experts =
     \<lparr> id' = new_id, topic = request, pattern = p, participants = selected_experts,
       messages = [], status = active \<rparr>"

definition execute_pattern ::
  "strategies \<Rightarrow> ConversationPattern \<Rightarrow> ConversationThread
     \<Rightarrow> outcome \<times> ConversationMessage list" where
  \<comment> \<open>the body of the \<open>try\<close> block up to the result\<close>
  "execute_pattern S p thread =
     (if p = SEQUENTIAL_CHAIN then sequential_chain_conversation S thread
      else if p = CONCURRENT_PROCESSING then concurrent_processing_conversation S thread
      else if p = GROUP_CHAT_DEBATE then group_chat_debate_conversation S thread
      else if p = MAKER_CHECKER_LOOP then
        (case maker_checker_interrupt S of
           Some b \<Rightarrow> (Propagated b, messages thread)
         | None \<Rightarrow>
             (case maker_checker_loop_conversation thread of
                Inl e \<Rightarrow> (Raised e, messages thread)
              | Inr result \<Rightarrow> (Returned result, messages thread)))
      else (Raised (ValueError (''Unsupported conversation pattern: '' @ str_of_pattern p)),
            messages thread))"

definition start_conversation ::
  "strategies \<Rightarrow> MultiAgentConversationEngine \<Rightarrow> string \<Rightarrow> string \<Rightarrow> ConversationPattern
     \<Rightarrow> string list \<Rightarrow> (base_exception + ConversationResult) \<times> MultiAgentConversationEngine" where
  \<comment> \<open>\<open>except Exception\<close> catches \<open>Raised\<close>; \<open>Propagated\<close> reaches the caller (\<open>Inl\<close>)\<close>
  "start_conversation S self new_id request p selected_experts =
     (let thread = new_thread new_id request p selected_experts;
          self1 = self\<lparr>active_threads := (active_threads self)(new_id \<mapsto> thread)\<rparr>
      in case execute_pattern S p thread of
           (Returned result, msgs) \<Rightarrow>
             (Inr result,
              self1\<lparr>conversation_history := conversation_history self1 @ [result],
                    active_threads := (active_threads self1)
                      (new_id \<mapsto> thread\<lparr>messages := msgs, status := completed\<rparr>)\<rparr>)
         | (Raised e, msgs) \<Rightarrow>
             (Inr \<lparr> thread_id = new_id,
                     final_response = ''Conversation failed: '' @ str_of_error e,
                     participating_experts = selected_experts,
                     consensus_level = 0, message_count = 0, success = False,
                     quality_metrics = [] \<rparr>,
              self1\<lparr>active_threads := (active_threads self1)
                      (new_id \<mapsto> thread\<lparr>messages := msgs, status := failed\<rparr>)\<rparr>)
         | (Propagated b, msgs) \<Rightarrow>
             (Inl b,
              self1\<lparr>active_threads := (active_threads self1)
                      (new_id \<mapsto> thread\<lparr>messages := msgs\<rparr>)\<rparr>))"

section \<open>Properties of the complexity analysis\<close>




text \<open>
  C1. For every request, \<open>analyze_complexity\<close> returns as score the sum of the four
  counters (domain keywords, technical terms, action verbs, scope words) divided by 4, and
  as pattern the one fixed by the thresholds on that score: hierarchical exactly when the
  score is at least 3, concurrent exactly when it is in [2,3), sequential exactly when it
  is in [1,2), handoff exactly when it is below 1. The function reads nothing but its
  argument and writes nothing, so the model is a function of the request alone.
\<close>

theorem analyze_complexity_thresholds:
  "fst (analyze_complexity request)
     = of_nat (multi_domain (indicators_of request) + technical_terms (indicators_of request)
               + action_verbs (indicators_of request) + scope_indicators (indicators_of request)) / 4
   \<and> (snd (analyze_complexity request) = HIERARCHICAL) = (3 \<le> fst (analyze_complexity request))
   \<and> (snd (analyze_complexity request) = CONCURRENT)
       = (2 \<le> fst (analyze_complexity request) \<and> fst (analyze_complexity request) < 3)
   \<and> (snd (analyze_complexity request) = SEQUENTIAL)
       = (1 \<le> fst (analyze_complexity request) \<and> fst (analyze_complexity request) < 2)
   \<and> (snd (analyze_complexity request) = HANDOFF) = (fst (analyze_complexity request) < 1)"
  by (simp add: analyze_complexity_def Let_def score_of_indicators_def)

subsection \<open>A request with any number of matches\<close>











section \<open>Properties of the task decomposition\<close>

lemma fold_order_closed:
  "fold (\<lambda>e order. if e \<noteq> b \<and> e \<notin> set order then order @ [e] else order) xs acc
     = acc @ rev (remdups (rev (filter (\<lambda>e. e \<noteq> b \<and> e \<notin> set acc) xs)))"
  by (induction xs rule: rev_induct) auto

lemma expert_order_closed:
  "expert_order experts =
     (if ''backend-architect'' \<in> set experts then [''backend-architect''] else [])
     @ rev (remdups (rev (filter (\<lambda>e. e \<noteq> ''backend-architect'') experts)))"
proof -
  have f: "filter (\<lambda>e. e \<noteq> ''backend-architect'' \<and> e \<notin> set acc) experts
      = filter (\<lambda>e. e \<noteq> ''backend-architect'') experts"
    if "set acc \<subseteq> {''backend-architect''}" for acc
    using that by (intro filter_cong) auto
  show ?thesis
  proof (cases "''backend-architect'' \<in> set experts")
    case True
    then have "expert_order experts = [''backend-architect'']
        @ rev (remdups (rev (filter (\<lambda>e. e \<noteq> ''backend-architect''
                                       \<and> e \<notin> set [''backend-architect'']) experts)))"
      unfolding expert_order_def by (simp only: fold_order_closed if_True)
    also have "\<dots> = [''backend-architect'']
        @ rev (remdups (rev (filter (\<lambda>e. e \<noteq> ''backend-architect'') experts)))"
      by (subst f) simp_all
    finally show ?thesis using True by simp
  next
    case False
    then have "expert_order experts = []
        @ rev (remdups (rev (filter (\<lambda>e. e \<noteq> ''backend-architect''
                                       \<and> e \<notin> set []) experts)))"
      unfolding expert_order_def by (simp only: fold_order_closed if_False)
    also have "\<dots> = rev (remdups (rev (filter (\<lambda>e. e \<noteq> ''backend-architect'') experts)))"
      by (subst f) simp_all
    finally show ?thesis using False by simp
  qed
qed

lemma length_create_sequential_subtasks:
  "length (create_sequential_subtasks request experts) = length (expert_order experts)"
  by (simp add: create_sequential_subtasks_def assign_ids_def)

lemma nth_create_sequential_subtasks:
  assumes "i < length (expert_order experts)"
  shows "create_sequential_subtasks request experts ! i =
     \<lparr> subtask_id = Some (''sequential_'' @ str_nat (i + 1)), level = 1,
       subtask_type = ''sequential'', expert = expert_order experts ! i,
       description = ''Sequential processing by '' @ expert_order experts ! i,
       dependencies = map (\<lambda>k. ''sequential_'' @ str_nat k) [1..<i + 1],
       estimated_time = 20 \<rparr>"
  using assms by (simp add: create_sequential_subtasks_def assign_ids_def nth_enumerate_eq)

lemma map_expert_create_sequential_subtasks:
  "map expert (create_sequential_subtasks request experts) = expert_order experts"
  by (rule nth_equalityI)
     (simp_all add: length_create_sequential_subtasks nth_create_sequential_subtasks)

lemma ids_take_create_sequential_subtasks:
  assumes "i \<le> length (expert_order experts)"
  shows "map subtask_id (take i (create_sequential_subtasks request experts))
     = map (\<lambda>k. Some (''sequential_'' @ str_nat k)) [1..<i + 1]"
proof (rule nth_equalityI)
  show "length (map subtask_id (take i (create_sequential_subtasks request experts)))
      = length (map (\<lambda>k. Some (''sequential_'' @ str_nat k)) [1..<i + 1])"
    using assms by (simp add: length_create_sequential_subtasks)
next
  fix j
  assume "j < length (map subtask_id (take i (create_sequential_subtasks request experts)))"
  then have j: "j < i" "j < length (expert_order experts)"
    using assms by (simp_all add: length_create_sequential_subtasks)
  have "[1..<i + 1] ! j = j + 1"
    using j by (simp del: upt_Suc)
  then have "map (\<lambda>k. Some (''sequential_'' @ str_nat k)) [1..<i + 1] ! j
      = Some (''sequential_'' @ str_nat (j + 1))"
    using j by (simp del: upt_Suc)
  moreover have "map subtask_id (take i (create_sequential_subtasks request experts)) ! j
      = Some (''sequential_'' @ str_nat (j + 1))"
    using j by (simp add: length_create_sequential_subtasks nth_create_sequential_subtasks)
  ultimately show "map subtask_id (take i (create_sequential_subtasks request experts)) ! j
      = map (\<lambda>k. Some (''sequential_'' @ str_nat k)) [1..<i + 1] ! j"
    by simp
qed

text \<open>
  C8, as the code has it. For every list of selected workers, the sequential
  decomposition puts \<open>backend-architect\<close> first when it was selected, then the other
  workers in selection order, each once (a repeated worker keeps its first place). The
  subtask at position \<open>i\<close> (from 0) has the id \<open>sequential_(i+1)\<close>, and its dependency
  list is the list of the ids of all subtasks before it, in order; the first subtask has
  no dependencies.
\<close>

theorem sequential_subtasks_structure:
  "map expert (create_sequential_subtasks request experts)
     = (if ''backend-architect'' \<in> set experts then [''backend-architect''] else [])
       @ rev (remdups (rev (filter (\<lambda>e. e \<noteq> ''backend-architect'') experts)))
   \<and> (\<forall>i < length (create_sequential_subtasks request experts).
        subtask_id (create_sequential_subtasks request experts ! i)
          = Some (''sequential_'' @ str_nat (i + 1))
        \<and> map Some (dependencies (create_sequential_subtasks request experts ! i))
          = map subtask_id (take i (create_sequential_subtasks request experts)))
   \<and> (create_sequential_subtasks request experts \<noteq> []
        \<longrightarrow> dependencies (hd (create_sequential_subtasks request experts)) = [])"
proof (intro conjI allI impI)
  show "map expert (create_sequential_subtasks request experts)
     = (if ''backend-architect'' \<in> set experts then [''backend-architect''] else [])
       @ rev (remdups (rev (filter (\<lambda>e. e \<noteq> ''backend-architect'') experts)))"
    by (simp only: map_expert_create_sequential_subtasks expert_order_closed)
next
  fix i assume "i < length (create_sequential_subtasks request experts)"
  then have i: "i < length (expert_order experts)"
    by (simp add: length_create_sequential_subtasks)
  show "subtask_id (create_sequential_subtasks request experts ! i)
          = Some (''sequential_'' @ str_nat (i + 1))"
    using i by (simp add: nth_create_sequential_subtasks)
  show "map Some (dependencies (create_sequential_subtasks request experts ! i))
          = map subtask_id (take i (create_sequential_subtasks request experts))"
    using i by (simp add: nth_create_sequential_subtasks ids_take_create_sequential_subtasks)
next
  assume ne: "create_sequential_subtasks request experts \<noteq> []"
  then have "0 < length (expert_order experts)"
    using length_create_sequential_subtasks [of request experts] by (cases "expert_order experts") auto
  then have "dependencies (create_sequential_subtasks request experts ! 0) = []"
    by (simp add: nth_create_sequential_subtasks)
  with ne show "dependencies (hd (create_sequential_subtasks request experts)) = []"
    by (simp add: hd_conv_nth)
qed


theorem sequential_subtasks_structure_witness:
  "create_sequential_subtasks ''build it'' [''react-expert'', ''backend-architect'', ''python-expert''] \<noteq> []
   \<and> 2 < length (create_sequential_subtasks ''build it'' [''react-expert'', ''backend-architect'', ''python-expert''])
   \<and> map expert (create_sequential_subtasks ''build it'' [''react-expert'', ''backend-architect'', ''python-expert''])
       = [''backend-architect'', ''react-expert'', ''python-expert'']
   \<and> map Some (dependencies (create_sequential_subtasks ''build it''
         [''react-expert'', ''backend-architect'', ''python-expert''] ! 2))
       = map subtask_id (take 2 (create_sequential_subtasks ''build it''
         [''react-expert'', ''backend-architect'', ''python-expert'']))
   \<and> dependencies (hd (create_sequential_subtasks ''build it''
         [''react-expert'', ''backend-architect'', ''python-expert''])) = []"
proof -
  have len: "length (create_sequential_subtasks ''build it''
      [''react-expert'', ''backend-architect'', ''python-expert'']) = 3"
    by code_simp
  then have ne: "create_sequential_subtasks ''build it''
      [''react-expert'', ''backend-architect'', ''python-expert''] \<noteq> []"
    by auto
  show ?thesis
    using sequential_subtasks_structure
      [of "''build it''" "[''react-expert'', ''backend-architect'', ''python-expert'']"] len ne
    by simp
qed

theorem sequential_dependencies_counterexample:
  "subtask_id (create_sequential_subtasks ''build it''
       [''backend-architect'', ''react-expert'', ''python-expert''] ! 1) = Some ''sequential_2''
   \<and> dependencies (create_sequential_subtasks ''build it''
       [''backend-architect'', ''react-expert'', ''python-expert''] ! 2)
       = [''sequential_1'', ''sequential_2'']
   \<and> dependencies (create_sequential_subtasks ''build it''
       [''backend-architect'', ''react-expert'', ''python-expert''] ! 2) \<noteq> [''sequential_2'']"
  by code_simp

subsection \<open>Reading an id before it is assigned\<close>

lemma library_init_orchestrator: "expert_library init_orchestrator = load_expert_library"
  by (simp add: init_orchestrator_def)

lemma lower_dashboard_request:
  "lower ''Build a React dashboard with a Python backend, a Postgres database, and deploy via Docker''
     = ''build a react dashboard with a python backend, a postgres database, and deploy via docker''"
  by code_simp

lemma indicators_dashboard_request:
  "indicators_of
     ''Build a React dashboard with a Python backend, a Postgres database, and deploy via Docker''
     = \<lparr>multi_domain = 4, technical_terms = 3, action_verbs = 1, scope_indicators = 0\<rparr>"
  unfolding indicators_of_def lower_dashboard_request by code_simp

lemma required_dashboard_request:
  "map fst (filter (\<lambda>(n, d). list_ex (contains
       ''build a react dashboard with a python backend, a postgres database, and deploy via docker'')
       (keyword_list d)) load_expert_library)
     = [''react-expert'', ''python-expert'', ''postgres-expert'', ''docker-expert'']"
  by code_simp

lemma concurrent_four_experts:
  "create_concurrent_subtasks request
     [''react-expert'', ''python-expert'', ''postgres-expert'', ''docker-expert'']
     = Inl (KeyError ''id'')"
  by (simp add: create_concurrent_subtasks_def)

lemma required_architecture_request:
  "map fst (filter (\<lambda>(n, d). list_ex (contains (lower ''design the architecture of a react app''))
       (keyword_list d)) load_expert_library)
     = [''react-expert'', ''backend-architect'']"
  by code_simp

lemma hierarchical_two_experts:
  "create_hierarchical_subtasks request [''react-expert'', ''backend-architect'']
     = Inl (KeyError ''id'')"
  by (simp add: create_hierarchical_subtasks_def)

text \<open>
  C2, evaluated where the code fails. The request of the specification's own scenario is
  classified as concurrent (score 2) and matches four library experts; building its
  concurrent decomposition reads \<open>s["id"]\<close> of the parallel subtasks before any id is
  assigned and ends in \<open>KeyError\<close>. The hierarchical builder fails the same way as soon
  as a planning subtask precedes a development subtask.
\<close>

theorem decompose_task_key_error:
  "analyze_complexity
     ''Build a React dashboard with a Python backend, a Postgres database, and deploy via Docker''
     = (2, CONCURRENT)
   \<and> decompose_task init_orchestrator
       ''Build a React dashboard with a Python backend, a Postgres database, and deploy via Docker''
       CONCURRENT = Inl (KeyError ''id'')
   \<and> decompose_task init_orchestrator ''design the architecture of a react app'' HIERARCHICAL
       = Inl (KeyError ''id'')"
proof (intro conjI)
  show "analyze_complexity
     ''Build a React dashboard with a Python backend, a Postgres database, and deploy via Docker''
     = (2, CONCURRENT)"
    by (simp add: analyze_complexity_def indicators_dashboard_request score_of_indicators_def)
  show "decompose_task init_orchestrator
       ''Build a React dashboard with a Python backend, a Postgres database, and deploy via Docker''
       CONCURRENT = Inl (KeyError ''id'')"
    unfolding decompose_task_def library_init_orchestrator lower_dashboard_request
      required_dashboard_request
    by (simp add: concurrent_four_experts)
  show "decompose_task init_orchestrator ''design the architecture of a react app'' HIERARCHICAL
       = Inl (KeyError ''id'')"
    unfolding decompose_task_def library_init_orchestrator required_architecture_request
    by (simp add: hierarchical_two_experts)
qed

section \<open>Properties of the expert selection\<close>

lemma calculate_expert_score_returns:
  assumes "keyword_list d \<noteq> []" and "capabilities d \<noteq> []"
  shows "\<exists>r. calculate_expert_score request d ctx = Inr r"
  using assms by (simp add: calculate_expert_score_def Let_def)

lemma calculate_expert_score_no_keywords:
  assumes "keyword_list d = []"
  shows "calculate_expert_score request d ctx = Inl ZeroDivisionError"
  using assms by (simp add: calculate_expert_score_def Let_def)

lemma score_all_fails_at_empty_keywords:
  assumes "\<forall>x \<in> set lib. keyword_list (snd x) \<noteq> [] \<and> capabilities (snd x) \<noteq> []"
    and "keyword_list d = []"
  shows "score_all request ctx (lib @ [(n, d)]) = Inl ZeroDivisionError"
  using assms(1)
proof (induction lib)
  case Nil
  show ?case by (simp add: calculate_expert_score_no_keywords [OF assms(2)])
next
  case (Cons x lib)
  obtain m e where x: "x = (m, e)" by (cases x)
  from Cons.prems x obtain r where "calculate_expert_score request e ctx = Inr r"
    using calculate_expert_score_returns [of e request ctx] by auto
  moreover from Cons have "score_all request ctx (lib @ [(n, d)]) = Inl ZeroDivisionError"
    by simp
  ultimately show ?case by (simp add: x)
qed

lemma sorted_desc_sort_key:
  "sorted_wrt (\<lambda>a b. snd b \<le> snd a) (sort_key (\<lambda>x. - snd x) (xs :: ('a \<times> rat) list))"
proof -
  have "sorted (map (\<lambda>x. - snd x) (sort_key (\<lambda>x. - snd x) xs))"
    by (rule sorted_sort_key)
  then show ?thesis
    by (simp add: sorted_map)
qed

lemma ranked_sorted:
  "sorted_wrt (\<lambda>a b. snd b \<le> snd a)
     (take n (filter P (sort_key (\<lambda>x. - snd x) (xs :: ('a \<times> rat) list))))"
  by (intro sorted_wrt_take sorted_wrt_filter sorted_desc_sort_key)

lemma ranked_stable:
  "prefix (filter (\<lambda>p. snd p = k)
             (take n (filter (\<lambda>x. snd x > t) (sort_key (\<lambda>x. - snd x) (xs :: ('a \<times> rat) list)))))
          (filter (\<lambda>p. snd p = k) xs)"
proof -
  let ?S = "sort_key (\<lambda>x. - snd x) xs"
  have st: "filter (\<lambda>p. snd p = k) ?S = filter (\<lambda>p. snd p = k) xs"
  proof -
    have "filter (\<lambda>p. - snd p = - k) ?S = filter (\<lambda>p. - snd p = - k) xs"
      by (rule sort_key_stable)
    then show ?thesis by simp
  qed
  have "prefix (filter (\<lambda>p. snd p = k) (take n (filter (\<lambda>x. snd x > t) ?S)))
               (filter (\<lambda>p. snd p = k) (filter (\<lambda>x. snd x > t) ?S))"
    by (intro filter_mono_prefix take_is_prefix)
  moreover have "filter (\<lambda>p. snd p = k) (filter (\<lambda>x. snd x > t) ?S)
      = (if k > t then filter (\<lambda>p. snd p = k) ?S else [])"
    by (auto simp: filter_empty_conv intro: filter_cong)
  ultimately show ?thesis
    by (simp add: st split: if_splits)
qed

text \<open>
  What holds whenever every entry can be scored: the result is cut from the scores sorted
  downwards, keeps only scores above the double \<open>0.3\<close>, holds at most five workers, and
  workers with equal scores keep the order of the library.
\<close>

lemma select_experts_ranking:
  assumes "adjusted_scores self request session_id = Inr scores"
  shows "\<exists>ranked. select_experts self request session_id = Inr (map fst ranked)
     \<and> set ranked \<subseteq> set scores
     \<and> length ranked \<le> 5
     \<and> (\<forall>p \<in> set ranked. rnd (3 / 10) < snd p)
     \<and> sorted_wrt (\<lambda>a b. snd b \<le> snd a) ranked
     \<and> (\<forall>k. prefix (filter (\<lambda>p. snd p = k) ranked) (filter (\<lambda>p. snd p = k) scores))"
proof -
  define ranked where
    "ranked = take 5 (filter (\<lambda>x. snd x > rnd (3 / 10)) (sort_key (\<lambda>x. - snd x) scores))"
  have sel: "select_experts self request session_id = Inr (map fst ranked)"
    by (simp add: select_experts_def assms Let_def take_map ranked_def)
  have sub: "set ranked \<subseteq> set scores"
  proof -
    have "set ranked \<subseteq> set (filter (\<lambda>x. snd x > rnd (3 / 10)) (sort_key (\<lambda>x. - snd x) scores))"
      unfolding ranked_def by (rule set_take_subset)
    then show ?thesis by auto
  qed
  have above: "\<forall>p \<in> set ranked. rnd (3 / 10) < snd p"
  proof
    fix p assume "p \<in> set ranked"
    then have "p \<in> set (filter (\<lambda>x. snd x > rnd (3 / 10)) (sort_key (\<lambda>x. - snd x) scores))"
      unfolding ranked_def by (rule in_set_takeD)
    then show "rnd (3 / 10) < snd p" by simp
  qed
  have len: "length ranked \<le> 5"
    by (simp add: ranked_def)
  have srt: "sorted_wrt (\<lambda>a b. snd b \<le> snd a) ranked"
    unfolding ranked_def by (rule ranked_sorted)
  have stab: "\<forall>k. prefix (filter (\<lambda>p. snd p = k) ranked) (filter (\<lambda>p. snd p = k) scores)"
    unfolding ranked_def by (intro allI ranked_stable)
  from sel sub len above srt stab show ?thesis by blast
qed

text \<open>
  Rounding decides the selection: for the request \<open>postgresql\<close> three of the four keywords
  of \<open>postgres-expert\<close> match, and \<open>0.75 * 0.4\<close> is the double above \<open>0.3\<close>.
\<close>

lemma rounded_literals:
  "rnd (4 / 10) = 3602879701896397 / 9007199254740992"
  "rnd (3 / 10) = 5404319552844595 / 18014398509481984"
  "fmul (fdiv 3 4) (rnd (4 / 10)) = 1351079888211149 / 4503599627370496"
  by code_simp+

lemma select_experts_postgresql:
  "select_experts init_orchestrator ''postgresql'' None = Inr [''postgres-expert'']"
  by code_simp

text \<open>
  And it decides the order: the sums \<open>0.4 + 0.19999999999999998\<close> of \<open>angular-expert\<close>
  and \<open>0.30000000000000004 + 0.3\<close> of \<open>python-expert\<close> are the doubles \<open>0.6\<close> and
  \<open>0.6000000000000001\<close>, so the later entry of the library comes first.
\<close>

lemma select_experts_rounded_order:
  "select_experts init_orchestrator
     ''angular modules services decorators python django flask api'' None
   = Inr [''python-expert'', ''angular-expert'']"
  by code_simp

lemma custom_expert_library:
  "expert_library (snd (create_custom_expert init_orchestrator ''0a1b2c3d''
       \<lparr>config_name = ''Reviewer'', skills = [], tools = [''checklist''],
         personality = ''strict''\<rparr>))
     = load_expert_library
       @ [(''custom_0a1b2c3d'',
           \<lparr>name = Some ''Reviewer'', keyword_list = [], capabilities = [''checklist'']\<rparr>)]"
  by (simp add: create_custom_expert_def init_orchestrator_def load_expert_library_def Let_def)

text \<open>
  C3, evaluated where the code fails. A custom expert created through
  \<open>create_custom_expert\<close> with an empty list of skills has no keywords, and from then on
  \<open>select_experts\<close> returns no list of workers at all: for every request and every
  session the division by the number of keywords raises \<open>ZeroDivisionError\<close>.
\<close>

theorem select_experts_zero_division:
  "select_experts
     (snd (create_custom_expert init_orchestrator ''0a1b2c3d''
        \<lparr>config_name = ''Reviewer'', skills = [], tools = [''checklist''],
          personality = ''strict''\<rparr>))
     request session_id
   = Inl ZeroDivisionError"
proof -
  have wf: "\<forall>x \<in> set load_expert_library.
      keyword_list (snd x) \<noteq> [] \<and> capabilities (snd x) \<noteq> []"
    by (simp add: load_expert_library_def)
  have "score_all request ctx (load_expert_library
       @ [(''custom_0a1b2c3d'',
           \<lparr>name = Some ''Reviewer'', keyword_list = [], capabilities = [''checklist'']\<rparr>)])
     = Inl ZeroDivisionError" for ctx
    by (rule score_all_fails_at_empty_keywords [OF wf]) simp
  then show ?thesis
    by (simp add: select_experts_def adjusted_scores_def custom_expert_library)
qed

section \<open>Properties of the consensus level\<close>

lemma sum_list_unit_interval:
  assumes "\<forall>c \<in> set cs. 0 \<le> c \<and> c \<le> (1::rat)"
  shows "0 \<le> sum_list cs \<and> sum_list cs \<le> of_nat (length cs)"
  using assms by (induction cs) auto

lemma average_unit_interval:
  assumes "\<forall>c \<in> set cs. 0 \<le> c \<and> c \<le> (1::rat)" and "cs \<noteq> []"
  shows "0 \<le> sum_list cs / of_nat (length cs) \<and> sum_list cs / of_nat (length cs) \<le> 1"
proof -
  have pos: "(0::rat) < of_nat (length cs)"
    using assms(2) by simp
  from sum_list_unit_interval [OF assms(1)] pos show ?thesis
    by (simp add: divide_le_eq)
qed

text \<open>
  C5. For every list of responses whose confidence values lie in [0,1] (a response
  without the key counts with the default 0.8), the consensus level is exactly 1 when
  there are fewer than 2 responses and otherwise the average confidence times
  \<open>min (count / 5) 1\<close>; in all cases it lies in [0,1].
\<close>

theorem consensus_level_range:
  assumes "\<forall>r \<in> set responses. \<forall>c. response_confidence r = Some c \<longrightarrow> 0 \<le> c \<and> c \<le> 1"
  shows "0 \<le> calculate_consensus_level responses
     \<and> calculate_consensus_level responses \<le> 1
     \<and> (length responses < 2 \<longrightarrow> calculate_consensus_level responses = 1)
     \<and> (2 \<le> length responses \<longrightarrow>
          calculate_consensus_level responses
            = sum_list (map (\<lambda>r. case response_confidence r of None \<Rightarrow> 8 / 10 | Some c \<Rightarrow> c) responses)
                / of_nat (length responses)
              * min (of_nat (length responses) / 5) 1)"
proof (cases "length responses < 2")
  case True
  then show ?thesis by (simp add: calculate_consensus_level_def)
next
  case False
  let ?cs = "map (\<lambda>r. case response_confidence r of None \<Rightarrow> 8 / 10 | Some c \<Rightarrow> c) responses"
  have in01: "\<forall>c \<in> set ?cs. 0 \<le> c \<and> c \<le> (1::rat)"
    using assms by (auto split: option.splits)
  have ne: "?cs \<noteq> []" using False by auto
  have avg: "0 \<le> sum_list ?cs / of_nat (length ?cs) \<and> sum_list ?cs / of_nat (length ?cs) \<le> 1"
    by (rule average_unit_interval [OF in01 ne])
  have fac: "(0::rat) \<le> min (of_nat (length responses) / 5) 1
      \<and> min (of_nat (length responses) / 5) 1 \<le> (1::rat)"
    by simp
  have eq: "calculate_consensus_level responses
      = sum_list ?cs / of_nat (length responses) * min (of_nat (length responses) / 5) 1"
    using False by (simp add: calculate_consensus_level_def Let_def)
  have "0 \<le> sum_list ?cs / of_nat (length responses) * min (of_nat (length responses) / 5) 1"
    using avg fac by (intro mult_nonneg_nonneg) simp_all
  moreover have "sum_list ?cs / of_nat (length responses) * min (of_nat (length responses) / 5) 1
      \<le> 1 * 1"
    using avg fac by (intro mult_mono) simp_all
  ultimately show ?thesis
    using False eq by simp
qed

theorem consensus_level_range_witness:
  "calculate_consensus_level
        [\<lparr>response_expert = ''a'', response_content = ''x'', response_confidence = Some (9 / 10)\<rparr>,
         \<lparr>response_expert = ''b'', response_content = ''y'', response_confidence = Some (9 / 10)\<rparr>]
       = 9 / 25
   \<and> 0 \<le> calculate_consensus_level
        [\<lparr>response_expert = ''a'', response_content = ''x'', response_confidence = Some (9 / 10)\<rparr>,
         \<lparr>response_expert = ''b'', response_content = ''y'', response_confidence = Some (9 / 10)\<rparr>]
   \<and> calculate_consensus_level
        [\<lparr>response_expert = ''a'', response_content = ''x'', response_confidence = Some (9 / 10)\<rparr>,
         \<lparr>response_expert = ''b'', response_content = ''y'', response_confidence = Some (9 / 10)\<rparr>]
       \<le> 1
   \<and> calculate_consensus_level [] = 1"
proof -
  have h: "\<forall>r \<in> set [\<lparr>response_expert = ''a'', response_content = ''x'', response_confidence = Some (9 / 10)\<rparr>,
                \<lparr>response_expert = ''b'', response_content = ''y'', response_confidence = Some (9 / 10)\<rparr>].
       \<forall>c. response_confidence r = Some c \<longrightarrow> 0 \<le> c \<and> c \<le> 1"
    by simp
  have h0: "\<forall>r \<in> set ([] :: response list).
       \<forall>c. response_confidence r = Some c \<longrightarrow> 0 \<le> c \<and> c \<le> 1"
    by simp
  show ?thesis
    using consensus_level_range [OF h] consensus_level_range [OF h0] by simp
qed

section \<open>Properties of the circuit breaker\<close>

lemma breaker_of_check:
  "breaker_of (snd (check_circuit_breaker self w now)) w =
     (if state (breaker_of self w) = OPEN
         \<and> (\<exists>t. last_failure (breaker_of self w) = Some t \<and> timedelta_seconds (now - t) > 60)
      then (breaker_of self w)\<lparr>state := HALF_OPEN\<rparr>
      else breaker_of self w)"
  by (auto simp: check_circuit_breaker_def Let_def breaker_of_def split: option.splits)

lemma fst_check:
  "fst (check_circuit_breaker self w now) =
     (state (breaker_of self w) = OPEN
        \<longrightarrow> (\<exists>t. last_failure (breaker_of self w) = Some t \<and> timedelta_seconds (now - t) > 60))"
  by (auto simp: check_circuit_breaker_def Let_def split: option.splits)

lemma breaker_of_record_failure:
  "breaker_of (record_failure self w now) w =
     (breaker_of self w)\<lparr>failures := failures (breaker_of self w) + 1, last_failure := Some now,
        state := (if failures (breaker_of self w) + 1 \<ge> 3 then OPEN else state (breaker_of self w))\<rparr>"
  by (simp add: record_failure_def Let_def breaker_of_def)

lemma timedelta_seconds_elapsed:
  assumes "0 \<le> d" and "timedelta_seconds d > 60"
  shows "61000000 \<le> d"
proof (rule ccontr)
  assume "\<not> 61000000 \<le> d"
  then have "d < 61000000" by simp
  with assms(1) have "d mod 86400000000 = d" by simp
  with \<open>d < 61000000\<close> have "timedelta_seconds d \<le> 60"
    by (simp add: timedelta_seconds_def)
  with assms(2) show False by simp
qed

lemma apply_call_invariant:
  assumes "failures (breaker_of self w) = n"
    and "(state (breaker_of self w) = CLOSED) = (n < 3)"
  shows "failures (breaker_of (apply_call w c self) w) = n + (if is_failure c then 1 else 0)
     \<and> (state (breaker_of (apply_call w c self) w) = CLOSED)
         = (n + (if is_failure c then 1 else 0) < 3)"
proof (cases c)
  case (Check now)
  with assms show ?thesis
    by (auto simp: breaker_of_check)
next
  case (Failure now)
  with assms show ?thesis
    by (auto simp: breaker_of_record_failure)
qed

lemma run_calls_invariant:
  assumes "failures (breaker_of self w) = n"
    and "(state (breaker_of self w) = CLOSED) = (n < 3)"
  shows "failures (breaker_of (run_calls w calls self) w) = n + length (filter is_failure calls)
     \<and> (state (breaker_of (run_calls w calls self) w) = CLOSED)
         = (n + length (filter is_failure calls) < 3)"
  using assms
proof (induction calls arbitrary: self n)
  case Nil
  then show ?case by (simp add: run_calls_def)
next
  case (Cons c calls)
  from apply_call_invariant [OF Cons.prems, of c]
  have step: "failures (breaker_of (apply_call w c self) w) = n + (if is_failure c then 1 else 0)"
    "(state (breaker_of (apply_call w c self) w) = CLOSED)
         = (n + (if is_failure c then 1 else 0) < 3)"
    by simp_all
  from Cons.IH [OF step] show ?case
    by (simp add: run_calls_def)
qed

text \<open>
  What holds of the breaker. For a worker without an entry at the start, after any history
  of checks and recorded failures the breaker has counted the failures, and it is closed
  exactly while fewer than 3 failures were recorded: the failure recorded after exactly 2
  earlier ones opens it. A check permits the call exactly when the breaker is closed or
  half-open after it. A check moves an open breaker to half-open only if a last failure
  is recorded, and then at least 61 seconds have passed since, provided the clock
  reading of the check is not before that of the failure.
\<close>

lemma circuit_breaker_transitions:
  "(circuit_breakers self0 w = None \<longrightarrow>
      failures (breaker_of (run_calls w calls self0) w) = length (filter is_failure calls)
      \<and> (state (breaker_of (run_calls w calls self0) w) = CLOSED)
          = (length (filter is_failure calls) < 3)
      \<and> (length (filter is_failure calls) = 2 \<longrightarrow>
           state (breaker_of (record_failure (run_calls w calls self0) w now) w) = OPEN))
   \<and> (state (breaker_of self w) = OPEN
       \<and> state (breaker_of (snd (check_circuit_breaker self w now)) w) = HALF_OPEN \<longrightarrow>
         (\<exists>t. last_failure (breaker_of self w) = Some t
              \<and> (t \<le> now \<longrightarrow> 61000000 \<le> now - t)))
   \<and> fst (check_circuit_breaker self w now)
       = (state (breaker_of (snd (check_circuit_breaker self w now)) w) \<in> {CLOSED, HALF_OPEN})"
proof (intro conjI impI)
  assume none: "circuit_breakers self0 w = None"
  then have init: "failures (breaker_of self0 w) = 0"
    "(state (breaker_of self0 w) = CLOSED) = ((0::nat) < 3)"
    by (simp_all add: breaker_of_def)
  from run_calls_invariant [OF init, of calls]
  show "failures (breaker_of (run_calls w calls self0) w) = length (filter is_failure calls)"
    and "(state (breaker_of (run_calls w calls self0) w) = CLOSED)
          = (length (filter is_failure calls) < 3)"
    by simp_all
  assume "length (filter is_failure calls) = 2"
  with run_calls_invariant [OF init, of calls]
  show "state (breaker_of (record_failure (run_calls w calls self0) w now) w) = OPEN"
    by (simp add: breaker_of_record_failure)
next
  assume a: "state (breaker_of self w) = OPEN
       \<and> state (breaker_of (snd (check_circuit_breaker self w now)) w) = HALF_OPEN"
  then obtain t where t: "last_failure (breaker_of self w) = Some t"
      "timedelta_seconds (now - t) > 60"
    by (auto simp: breaker_of_check split: if_splits)
  have "t \<le> now \<longrightarrow> 61000000 \<le> now - t"
    using timedelta_seconds_elapsed [of "now - t"] t(2) by simp
  with t(1) show "\<exists>t. last_failure (breaker_of self w) = Some t
              \<and> (t \<le> now \<longrightarrow> 61000000 \<le> now - t)"
    by blast
next
  show "fst (check_circuit_breaker self w now)
       = (state (breaker_of (snd (check_circuit_breaker self w now)) w) \<in> {CLOSED, HALF_OPEN})"
    by (cases "state (breaker_of self w)") (auto simp: fst_check breaker_of_check)
qed


text \<open>
  C7, evaluated where the code fails. Three failures are recorded for a worker while
  \<open>datetime.now()\<close> reads 0 s, 1 s and 2 s: the breaker is open and its last failure is
  the one at 2 s. The wall clock is then set back and the next check happens at a reading
  of 1 s. The difference is minus one second, whose \<open>seconds\<close> attribute is 86399, so the
  check moves the breaker to half-open and permits the call, although 60 seconds have not
  passed since the last recorded failure.
\<close>

theorem circuit_breaker_half_open_early:
  "breaker_of (run_calls ''react-expert'' [Failure 0, Failure 1000000, Failure 2000000]
       \<lparr>circuit_breakers = Map.empty\<rparr>) ''react-expert''
     = \<lparr>failures = 3, last_failure = Some 2000000, state = OPEN\<rparr>
   \<and> timedelta_seconds (1000000 - 2000000) = 86399
   \<and> fst (check_circuit_breaker
        (run_calls ''react-expert'' [Failure 0, Failure 1000000, Failure 2000000]
           \<lparr>circuit_breakers = Map.empty\<rparr>) ''react-expert'' 1000000) = True
   \<and> breaker_of (snd (check_circuit_breaker
        (run_calls ''react-expert'' [Failure 0, Failure 1000000, Failure 2000000]
           \<lparr>circuit_breakers = Map.empty\<rparr>) ''react-expert'' 1000000)) ''react-expert''
     = \<lparr>failures = 3, last_failure = Some 2000000, state = HALF_OPEN\<rparr>"
proof -
  let ?S3 = "run_calls ''react-expert'' [Failure 0, Failure 1000000, Failure 2000000]
       \<lparr>circuit_breakers = Map.empty\<rparr>"
  have b3: "breaker_of ?S3 ''react-expert''
      = \<lparr>failures = 3, last_failure = Some 2000000, state = OPEN\<rparr>"
    by (simp add: run_calls_def record_failure_def breaker_of_def Let_def)
  have d: "timedelta_seconds (1000000 - 2000000) = 86399"
    by (simp add: timedelta_seconds_def)
  have f: "fst (check_circuit_breaker ?S3 ''react-expert'' 1000000) = True"
    using d by (simp add: check_circuit_breaker_def Let_def b3)
  have h: "breaker_of (snd (check_circuit_breaker ?S3 ''react-expert'' 1000000)) ''react-expert''
      = \<lparr>failures = 3, last_failure = Some 2000000, state = HALF_OPEN\<rparr>"
    using d by (simp add: check_circuit_breaker_def Let_def b3) (simp add: breaker_of_def)
  from b3 d f h show ?thesis by (intro conjI)
qed

section \<open>Properties of the maker-checker loop\<close>

lemma extract_approval_score_eq:
  "extract_approval_score text =
     (if positive_count text + negative_count text = 0 then 8 / 10
      else of_nat (positive_count text) / of_nat (positive_count text + negative_count text))"
proof (cases "positive_count text + negative_count text = 0")
  case True
  then show ?thesis by (simp add: extract_approval_score_def)
next
  case False
  define x :: rat where
    "x = of_nat (positive_count text) / of_nat (positive_count text + negative_count text)"
  have "(of_nat (positive_count text) :: rat) \<le> of_nat (positive_count text + negative_count text)"
    by (rule of_nat_mono) simp
  moreover have "(0::rat) < of_nat (positive_count text + negative_count text)"
  proof -
    from False have "0 < positive_count text + negative_count text" by simp
    then show ?thesis by (simp only: of_nat_0_less_iff)
  qed
  ultimately have "x \<le> 1"
    unfolding x_def by (simp only: divide_le_eq_1_pos)
  moreover have "0 \<le> x"
    unfolding x_def by (intro divide_nonneg_nonneg) simp_all
  ultimately have "max 0 (min 1 x) = x" by simp
  then show ?thesis
    unfolding extract_approval_score_def Let_def x_def by (simp only: False if_False)
qed

lemma extract_approval_score_range:
  "0 \<le> extract_approval_score text \<and> extract_approval_score text \<le> 1"
  by (simp add: extract_approval_score_def Let_def)

lemma review_round_fields:
  "iteration (review_round t m c k) = k"
  "approval_score (review_round t m c k) = extract_approval_score (checker_response (review_round t m c k))"
  "maker_response (review_round t m c k) = generate_expert_specific_response m t"
  by (simp_all add: review_round_def Let_def)

lemma maker_checker_iterations_unfold:
  "maker_checker_iterations t m c 0 [] =
     (if approval_score (review_round t m c 1) \<ge> 8 / 10 then (1, [review_round t m c 1])
      else if approval_score (review_round t m c 2) \<ge> 8 / 10
        then (2, [review_round t m c 1, review_round t m c 2])
      else (3, [review_round t m c 1, review_round t m c 2, review_round t m c 3]))"
proof -
  have step: "maker_checker_iterations t m c n h =
     (if approval_score (review_round t m c (n + 1)) \<ge> 8 / 10
      then (n + 1, h @ [review_round t m c (n + 1)])
      else maker_checker_iterations t m c (n + 1) (h @ [review_round t m c (n + 1)]))"
    if "n < 3" for n h
    using that by (subst maker_checker_iterations.simps) simp
  have stop: "maker_checker_iterations t m c 3 h = (3, h)" for h
    by (subst maker_checker_iterations.simps) simp
  have s2: "maker_checker_iterations t m c 2 h = (3, h @ [review_round t m c 3])" for h
    using step [of 2 h] by (simp add: stop)
  have s1: "maker_checker_iterations t m c 1 h =
     (if approval_score (review_round t m c 2) \<ge> 8 / 10 then (2, h @ [review_round t m c 2])
      else (3, h @ [review_round t m c 2, review_round t m c 3]))" for h
    using step [of 1 h] by (simp add: s2 one_add_one del: One_nat_def)
  show ?thesis
    using step [of 0 "[]"] by (simp add: s1 del: One_nat_def)
qed

lemma maker_checker_iterations_spec:
  assumes "maker_checker_iterations t m c 0 [] = (n, h)"
  shows "1 \<le> n \<and> n \<le> 3 \<and> length h = n
     \<and> (\<forall>i < n. h ! i = review_round t m c (i + 1))
     \<and> (\<forall>i < n - 1. approval_score (h ! i) < 8 / 10)
     \<and> (n < 3 \<longrightarrow> 8 / 10 \<le> approval_score (last h))"
proof -
  consider (a) "approval_score (review_round t m c 1) \<ge> 8 / 10"
    | (b) "\<not> approval_score (review_round t m c 1) \<ge> 8 / 10"
          "approval_score (review_round t m c 2) \<ge> 8 / 10"
    | (c) "\<not> approval_score (review_round t m c 1) \<ge> 8 / 10"
          "\<not> approval_score (review_round t m c 2) \<ge> 8 / 10"
    by blast
  then show ?thesis
  proof cases
    case a
    with assms have "n = 1" "h = [review_round t m c 1]"
      by (auto simp: maker_checker_iterations_unfold)
    with a show ?thesis by simp
  next
    case b
    with assms have "n = 2" "h = [review_round t m c 1, review_round t m c 2]"
      by (auto simp: maker_checker_iterations_unfold)
    with b show ?thesis by (auto simp: less_Suc_eq nth_Cons' numeral_2_eq_2)
  next
    case c
    with assms have "n = 3"
      "h = [review_round t m c 1, review_round t m c 2, review_round t m c 3]"
      by (auto simp: maker_checker_iterations_unfold)
    with c show ?thesis by (auto simp: less_Suc_eq nth_Cons' numeral_3_eq_3 numeral_2_eq_2)
  qed
qed


lemma maker_checker_loop_conversation_eq:
  assumes "maker_checker_iterations (topic thread) (fst (maker_checker_roles (participants thread)))
             (snd (maker_checker_roles (participants thread))) 0 [] = (n, h)"
    and "h \<noteq> []"
  shows "\<exists>result. maker_checker_loop_conversation thread = Inr result
     \<and> consensus_level result = approval_score (last h)
     \<and> message_count result = n * 2 \<and> success result"
  using assms by (simp add: maker_checker_loop_conversation_def Let_def case_prod_beta)

lemma maker_checker_loop_returns:
  "\<exists>result. maker_checker_loop_conversation thread = Inr result"
proof -
  obtain n h where run:
    "maker_checker_iterations (topic thread) (fst (maker_checker_roles (participants thread)))
       (snd (maker_checker_roles (participants thread))) 0 [] = (n, h)"
    by (cases "maker_checker_iterations (topic thread)
                 (fst (maker_checker_roles (participants thread)))
                 (snd (maker_checker_roles (participants thread))) 0 []")
  from maker_checker_iterations_spec [OF run] have "h \<noteq> []" by auto
  from maker_checker_loop_conversation_eq [OF run this] show ?thesis by blast
qed

text \<open>
  C6. For every thread (topic and participant list), the maker-checker conversation
  returns a result. The loop makes \<open>n\<close> iterations with \<open>1 \<le> n \<le> 3\<close>, one feedback
  entry each, and the result counts two messages per iteration. The reported consensus
  level is the approval score of the last iteration. No iteration before the last reached
  0.8, and a loop that ends before the third iteration ends on a score of at least 0.8.
  Each iteration's score is \<open>extract_approval_score\<close> of the checker's review text of
  that iteration and lies in [0,1]; and \<open>extract_approval_score\<close> of a text is
  positive / (positive + negative) over the keywords found in it, and 0.8 when none is
  found.
\<close>

theorem maker_checker_loop_bounded:
  "\<exists>result n history.
       maker_checker_loop_conversation thread = Inr result
     \<and> maker_checker_iterations (topic thread) (fst (maker_checker_roles (participants thread)))
           (snd (maker_checker_roles (participants thread))) 0 [] = (n, history)
     \<and> 1 \<le> n \<and> n \<le> 3 \<and> length history = n
     \<and> message_count result = n * 2
     \<and> consensus_level result = approval_score (last history)
     \<and> (\<forall>i < n - 1. approval_score (history ! i) < 8 / 10)
     \<and> (n < 3 \<longrightarrow> 8 / 10 \<le> approval_score (last history))
     \<and> (\<forall>i < n. iteration (history ! i) = i + 1
           \<and> approval_score (history ! i) = extract_approval_score (checker_response (history ! i))
           \<and> 0 \<le> approval_score (history ! i) \<and> approval_score (history ! i) \<le> 1)
     \<and> (\<forall>text. extract_approval_score text =
           (if positive_count text + negative_count text = 0 then 8 / 10
            else of_nat (positive_count text)
                 / of_nat (positive_count text + negative_count text)))"
proof -
  let ?t = "topic thread"
  let ?m = "fst (maker_checker_roles (participants thread))"
  let ?c = "snd (maker_checker_roles (participants thread))"
  obtain n h where run: "maker_checker_iterations ?t ?m ?c 0 [] = (n, h)"
    by (cases "maker_checker_iterations ?t ?m ?c 0 []")
  from maker_checker_iterations_spec [OF run]
  have n: "1 \<le> n" "n \<le> 3" "length h = n"
    and nth: "\<forall>i < n. h ! i = review_round ?t ?m ?c (i + 1)"
    and before: "\<forall>i < n - 1. approval_score (h ! i) < 8 / 10"
    and early: "n < 3 \<longrightarrow> 8 / 10 \<le> approval_score (last h)"
    by blast+
  from n have ne: "h \<noteq> []" by auto
  from maker_checker_loop_conversation_eq [OF run ne]
  obtain result where res: "maker_checker_loop_conversation thread = Inr result"
    "consensus_level result = approval_score (last h)" "message_count result = n * 2"
    by blast
  have each: "\<forall>i < n. iteration (h ! i) = i + 1
           \<and> approval_score (h ! i) = extract_approval_score (checker_response (h ! i))
           \<and> 0 \<le> approval_score (h ! i) \<and> approval_score (h ! i) \<le> 1"
  proof (intro allI impI)
    fix i assume "i < n"
    with nth have hi: "h ! i = review_round ?t ?m ?c (i + 1)" by simp
    show "iteration (h ! i) = i + 1
           \<and> approval_score (h ! i) = extract_approval_score (checker_response (h ! i))
           \<and> 0 \<le> approval_score (h ! i) \<and> approval_score (h ! i) \<le> 1"
      unfolding hi
      using review_round_fields(2) [of ?t ?m ?c "i + 1"] extract_approval_score_range
      by (simp add: review_round_fields(1))
  qed
  from run res n before early each extract_approval_score_eq show ?thesis
    by blast
qed

theorem maker_checker_loop_bounded_witness:
  "(\<exists>result. maker_checker_loop_conversation
        (new_thread ''t1'' ''fix the form'' MAKER_CHECKER_LOOP [''qa'']) = Inr result
      \<and> message_count result = 6 \<and> consensus_level result = 0)
   \<and> (\<exists>result. maker_checker_loop_conversation
        (new_thread ''t2'' ''build a form'' MAKER_CHECKER_LOOP [''dev'', ''qa''])
          = Inr result
      \<and> message_count result = 2 \<and> consensus_level result = 8 / 10)"
proof -
  have a1: "approval_score (review_round ''fix the form'' ''qa'' ''qa'' k) = 0"
    for k
    unfolding review_round_def Let_def by code_simp
  have a2: "approval_score (review_round ''build a form'' ''dev'' ''qa'' k)
      = 8 / 10" for k
    unfolding review_round_def Let_def by code_simp
  have r1: "maker_checker_roles [''qa''] = (''qa'', ''qa'')"
    by (simp add: maker_checker_roles_def Let_def)
  have r2: "maker_checker_roles [''dev'', ''qa'']
      = (''dev'', ''qa'')"
    by (simp add: maker_checker_roles_def)
  from maker_checker_loop_bounded
    [of "new_thread ''t1'' ''fix the form'' MAKER_CHECKER_LOOP [''qa'']"]
  obtain res1 n1 h1 where w1:
    "maker_checker_loop_conversation
        (new_thread ''t1'' ''fix the form'' MAKER_CHECKER_LOOP [''qa'']) = Inr res1"
    "maker_checker_iterations ''fix the form'' ''qa'' ''qa'' 0 []
       = (n1, h1)"
    "message_count res1 = n1 * 2" "consensus_level res1 = approval_score (last h1)"
    by (auto simp: new_thread_def r1)
  from w1(2) have "n1 = 3" "approval_score (last h1) = 0"
    by (auto simp: maker_checker_iterations_unfold a1)
  with w1 have p1: "\<exists>result. maker_checker_loop_conversation
        (new_thread ''t1'' ''fix the form'' MAKER_CHECKER_LOOP [''qa'']) = Inr result
      \<and> message_count result = 6 \<and> consensus_level result = 0"
    by simp
  from maker_checker_loop_bounded
    [of "new_thread ''t2'' ''build a form'' MAKER_CHECKER_LOOP [''dev'', ''qa'']"]
  obtain res2 n2 h2 where w2:
    "maker_checker_loop_conversation
        (new_thread ''t2'' ''build a form'' MAKER_CHECKER_LOOP [''dev'', ''qa''])
       = Inr res2"
    "maker_checker_iterations ''build a form'' ''dev'' ''qa'' 0 []
       = (n2, h2)"
    "message_count res2 = n2 * 2" "consensus_level res2 = approval_score (last h2)"
    by (auto simp: new_thread_def r2)
  from w2(2) have "n2 = 1" "approval_score (last h2) = 8 / 10"
    by (auto simp: maker_checker_iterations_unfold a2)
  with w2 have p2: "\<exists>result. maker_checker_loop_conversation
        (new_thread ''t2'' ''build a form'' MAKER_CHECKER_LOOP [''dev'', ''qa''])
          = Inr result
      \<and> message_count result = 2 \<and> consensus_level result = 8 / 10"
    by simp
  from p1 p2 show ?thesis by blast
qed

section \<open>Properties of starting a conversation\<close>

lemma start_conversation_raised:
  assumes "execute_pattern S p (new_thread i request p experts) = (Raised e, msgs)"
  shows "start_conversation S self i request p experts =
     (Inr \<lparr> thread_id = i, final_response = ''Conversation failed: '' @ str_of_error e,
            participating_experts = experts, consensus_level = 0, message_count = 0,
            success = False, quality_metrics = [] \<rparr>,
      self\<lparr>active_threads := (active_threads self)
             (i \<mapsto> (new_thread i request p experts)\<lparr>messages := msgs, status := failed\<rparr>)\<rparr>)"
  using assms by (simp add: start_conversation_def Let_def)

lemma start_conversation_returned:
  assumes "execute_pattern S p (new_thread i request p experts) = (Returned result, msgs)"
  shows "start_conversation S self i request p experts =
     (Inr result,
      self\<lparr>conversation_history := conversation_history self @ [result],
           active_threads := (active_threads self)
             (i \<mapsto> (new_thread i request p experts)\<lparr>messages := msgs, status := completed\<rparr>)\<rparr>)"
  using assms by (simp add: start_conversation_def Let_def)

lemma start_conversation_propagated:
  assumes "execute_pattern S p (new_thread i request p experts) = (Propagated b, msgs)"
  shows "start_conversation S self i request p experts =
     (Inl b,
      self\<lparr>active_threads := (active_threads self)
             (i \<mapsto> (new_thread i request p experts)\<lparr>messages := msgs\<rparr>)\<rparr>)"
  using assms by (simp add: start_conversation_def Let_def)

lemma execute_pattern_unsupported:
  assumes "p \<notin> {SEQUENTIAL_CHAIN, CONCURRENT_PROCESSING, GROUP_CHAT_DEBATE, MAKER_CHECKER_LOOP}"
  shows "execute_pattern S p thread =
     (Raised (ValueError (''Unsupported conversation pattern: '' @ str_of_pattern p)),
      messages thread)"
  using assms by (simp add: execute_pattern_def)

text \<open>
  C9, as the code has it. When \<open>start_conversation\<close> is called with a pattern that is
  not one of the four supported strategies, the thread has already been created and
  stored in the active-thread map; the \<open>ValueError\<close> is raised inside the \<open>try\<close> block and
  caught by the handler, which sets the stored thread's status to failed and returns a
  result with \<open>success = False\<close>, no messages, consensus 0 and the error text. Nothing is
  appended to the conversation history.
\<close>

theorem unsupported_pattern_fails_thread:
  assumes "p \<notin> {SEQUENTIAL_CHAIN, CONCURRENT_PROCESSING, GROUP_CHAT_DEBATE, MAKER_CHECKER_LOOP}"
  shows "fst (start_conversation S self i request p experts) =
       Inr \<lparr> thread_id = i,
             final_response = ''Conversation failed: Unsupported conversation pattern: ''
                              @ str_of_pattern p,
             participating_experts = experts, consensus_level = 0, message_count = 0,
             success = False, quality_metrics = [] \<rparr>
     \<and> active_threads (snd (start_conversation S self i request p experts)) i
         = Some ((new_thread i request p experts)\<lparr>status := failed\<rparr>)
     \<and> conversation_history (snd (start_conversation S self i request p experts))
         = conversation_history self"
  using start_conversation_raised [OF execute_pattern_unsupported [OF assms]]
  by (simp add: new_thread_def)

theorem unsupported_pattern_fails_thread_witness:
  "HANDOFF_ROUTING \<notin> {SEQUENTIAL_CHAIN, CONCURRENT_PROCESSING, GROUP_CHAT_DEBATE, MAKER_CHECKER_LOOP}
   \<and> fst (start_conversation
          \<lparr> sequential_chain_conversation = (\<lambda>t. (Raised (WorkerError ''worker timed out''), messages t)),
            concurrent_processing_conversation = (\<lambda>t. (Raised (WorkerError ''worker timed out''), messages t)),
            group_chat_debate_conversation = (\<lambda>t. (Raised (WorkerError ''worker timed out''), messages t)),
            maker_checker_interrupt = None \<rparr>
          \<lparr>active_threads = Map.empty, conversation_history = []\<rparr>
          ''t1'' ''hello'' HANDOFF_ROUTING [''react-expert''])
       = Inr \<lparr> thread_id = ''t1'',
               final_response = ''Conversation failed: Unsupported conversation pattern: ConversationPattern.HANDOFF_ROUTING'',
               participating_experts = [''react-expert''], consensus_level = 0,
               message_count = 0, success = False, quality_metrics = [] \<rparr>
   \<and> conversation_history (snd (start_conversation
          \<lparr> sequential_chain_conversation = (\<lambda>t. (Raised (WorkerError ''worker timed out''), messages t)),
            concurrent_processing_conversation = (\<lambda>t. (Raised (WorkerError ''worker timed out''), messages t)),
            group_chat_debate_conversation = (\<lambda>t. (Raised (WorkerError ''worker timed out''), messages t)),
            maker_checker_interrupt = None \<rparr>
          \<lparr>active_threads = Map.empty, conversation_history = []\<rparr>
          ''t1'' ''hello'' HANDOFF_ROUTING [''react-expert''])) = []"
proof -
  have h: "HANDOFF_ROUTING
      \<notin> {SEQUENTIAL_CHAIN, CONCURRENT_PROCESSING, GROUP_CHAT_DEBATE, MAKER_CHECKER_LOOP}"
    by simp
  show ?thesis
    using h unsupported_pattern_fails_thread [OF h, of
        "\<lparr> sequential_chain_conversation = (\<lambda>t. (Raised (WorkerError ''worker timed out''), messages t)),
            concurrent_processing_conversation = (\<lambda>t. (Raised (WorkerError ''worker timed out''), messages t)),
            group_chat_debate_conversation = (\<lambda>t. (Raised (WorkerError ''worker timed out''), messages t)),
            maker_checker_interrupt = None \<rparr>"
        "\<lparr>active_threads = Map.empty, conversation_history = []\<rparr>"
        "''t1''" "''hello''" "[''react-expert'']"]
    by simp
qed

theorem unsupported_pattern_creates_thread:
  "\<not> (active_threads (snd (start_conversation
          \<lparr> sequential_chain_conversation = (\<lambda>t. (Raised (WorkerError ''worker timed out''), messages t)),
            concurrent_processing_conversation = (\<lambda>t. (Raised (WorkerError ''worker timed out''), messages t)),
            group_chat_debate_conversation = (\<lambda>t. (Raised (WorkerError ''worker timed out''), messages t)),
            maker_checker_interrupt = None \<rparr>
          \<lparr>active_threads = Map.empty, conversation_history = []\<rparr>
          ''t1'' ''hello'' HANDOFF_ROUTING [''react-expert''])) ''t1'' = None)
   \<and> map_option status (active_threads (snd (start_conversation
          \<lparr> sequential_chain_conversation = (\<lambda>t. (Raised (WorkerError ''worker timed out''), messages t)),
            concurrent_processing_conversation = (\<lambda>t. (Raised (WorkerError ''worker timed out''), messages t)),
            group_chat_debate_conversation = (\<lambda>t. (Raised (WorkerError ''worker timed out''), messages t)),
            maker_checker_interrupt = None \<rparr>
          \<lparr>active_threads = Map.empty, conversation_history = []\<rparr>
          ''t1'' ''hello'' HANDOFF_ROUTING [''react-expert''])) ''t1'') = Some failed"
  by (simp add: start_conversation_def execute_pattern_def Let_def new_thread_def)

text \<open>
  C10, as the code has it. Whenever the chosen strategy raises an exception derived
  from \<open>Exception\<close>, \<open>start_conversation\<close> returns a result with \<open>success = False\<close>,
  consensus level 0, message count 0 and a final response that carries the error's
  message, and the stored thread's status is failed. When the strategy returns a result,
  that result is returned and appended to the history, and the thread's status is
  completed. An exception that is not derived from \<open>Exception\<close>, such as the
  \<open>CancelledError\<close> of a task cancelled while a strategy waits, is not caught by
  \<open>except Exception\<close>: it reaches the caller, no result is returned, nothing is appended
  to the history and the stored thread keeps the status active.
\<close>

theorem start_conversation_outcomes:
  "(fst (execute_pattern S p (new_thread i request p experts)) = Raised e \<longrightarrow>
       fst (start_conversation S self i request p experts)
         = Inr \<lparr> thread_id = i, final_response = ''Conversation failed: '' @ str_of_error e,
                 participating_experts = experts, consensus_level = 0, message_count = 0,
                 success = False, quality_metrics = [] \<rparr>
     \<and> map_option status (active_threads (snd (start_conversation S self i request p experts)) i)
         = Some failed
     \<and> conversation_history (snd (start_conversation S self i request p experts))
         = conversation_history self)
   \<and> (fst (execute_pattern S p (new_thread i request p experts)) = Returned result \<longrightarrow>
       fst (start_conversation S self i request p experts) = Inr result
     \<and> map_option status (active_threads (snd (start_conversation S self i request p experts)) i)
         = Some completed
     \<and> conversation_history (snd (start_conversation S self i request p experts))
         = conversation_history self @ [result])
   \<and> (fst (execute_pattern S p (new_thread i request p experts)) = Propagated b \<longrightarrow>
       fst (start_conversation S self i request p experts) = Inl b
     \<and> map_option status (active_threads (snd (start_conversation S self i request p experts)) i)
         = Some active
     \<and> conversation_history (snd (start_conversation S self i request p experts))
         = conversation_history self)"
proof (intro conjI impI)
  assume "fst (execute_pattern S p (new_thread i request p experts)) = Raised e"
  then obtain msgs where
    "execute_pattern S p (new_thread i request p experts) = (Raised e, msgs)"
    by (cases "execute_pattern S p (new_thread i request p experts)") simp
  note f = start_conversation_raised [OF this, of self]
  show "fst (start_conversation S self i request p experts)
         = Inr \<lparr> thread_id = i, final_response = ''Conversation failed: '' @ str_of_error e,
                 participating_experts = experts, consensus_level = 0, message_count = 0,
                 success = False, quality_metrics = [] \<rparr>"
    and "map_option status (active_threads (snd (start_conversation S self i request p experts)) i)
         = Some failed"
    and "conversation_history (snd (start_conversation S self i request p experts))
         = conversation_history self"
    by (simp_all add: f)
next
  assume "fst (execute_pattern S p (new_thread i request p experts)) = Returned result"
  then obtain msgs where
    "execute_pattern S p (new_thread i request p experts) = (Returned result, msgs)"
    by (cases "execute_pattern S p (new_thread i request p experts)") simp
  note f = start_conversation_returned [OF this, of self]
  show "fst (start_conversation S self i request p experts) = Inr result"
    and "map_option status (active_threads (snd (start_conversation S self i request p experts)) i)
         = Some completed"
    and "conversation_history (snd (start_conversation S self i request p experts))
         = conversation_history self @ [result]"
    by (simp_all add: f)
next
  assume "fst (execute_pattern S p (new_thread i request p experts)) = Propagated b"
  then obtain msgs where
    "execute_pattern S p (new_thread i request p experts) = (Propagated b, msgs)"
    by (cases "execute_pattern S p (new_thread i request p experts)") simp
  note f = start_conversation_propagated [OF this, of self]
  show "fst (start_conversation S self i request p experts) = Inl b"
    and "map_option status (active_threads (snd (start_conversation S self i request p experts)) i)
         = Some active"
    and "conversation_history (snd (start_conversation S self i request p experts))
         = conversation_history self"
    by (simp_all add: f new_thread_def)
qed


theorem start_conversation_outcomes_witness:
  "fst (start_conversation
          \<lparr> sequential_chain_conversation = (\<lambda>t. (Raised (WorkerError ''worker timed out''), messages t)),
            concurrent_processing_conversation = (\<lambda>t. (Raised (WorkerError ''worker timed out''), messages t)),
            group_chat_debate_conversation = (\<lambda>t. (Propagated KeyboardInterrupt, messages t)),
            maker_checker_interrupt = None \<rparr>
          \<lparr>active_threads = Map.empty, conversation_history = []\<rparr>
          ''t1'' ''hello'' SEQUENTIAL_CHAIN [''react-expert''])
     = Inr \<lparr> thread_id = ''t1'', final_response = ''Conversation failed: worker timed out'',
             participating_experts = [''react-expert''], consensus_level = 0, message_count = 0,
             success = False, quality_metrics = [] \<rparr>
   \<and> map_option status (active_threads (snd (start_conversation
          \<lparr> sequential_chain_conversation = (\<lambda>t. (Raised (WorkerError ''worker timed out''), messages t)),
            concurrent_processing_conversation = (\<lambda>t. (Raised (WorkerError ''worker timed out''), messages t)),
            group_chat_debate_conversation = (\<lambda>t. (Propagated KeyboardInterrupt, messages t)),
            maker_checker_interrupt = None \<rparr>
          \<lparr>active_threads = Map.empty, conversation_history = []\<rparr>
          ''t1'' ''hello'' SEQUENTIAL_CHAIN [''react-expert''])) ''t1'') = Some failed
   \<and> map_option status (active_threads (snd (start_conversation
          \<lparr> sequential_chain_conversation = (\<lambda>t. (Raised (WorkerError ''worker timed out''), messages t)),
            concurrent_processing_conversation = (\<lambda>t. (Raised (WorkerError ''worker timed out''), messages t)),
            group_chat_debate_conversation = (\<lambda>t. (Propagated KeyboardInterrupt, messages t)),
            maker_checker_interrupt = None \<rparr>
          \<lparr>active_threads = Map.empty, conversation_history = []\<rparr>
          ''t2'' ''build a form'' MAKER_CHECKER_LOOP [''dev'', ''qa''])) ''t2'') = Some completed
   \<and> length (conversation_history (snd (start_conversation
          \<lparr> sequential_chain_conversation = (\<lambda>t. (Raised (WorkerError ''worker timed out''), messages t)),
            concurrent_processing_conversation = (\<lambda>t. (Raised (WorkerError ''worker timed out''), messages t)),
            group_chat_debate_conversation = (\<lambda>t. (Propagated KeyboardInterrupt, messages t)),
            maker_checker_interrupt = None \<rparr>
          \<lparr>active_threads = Map.empty, conversation_history = []\<rparr>
          ''t2'' ''build a form'' MAKER_CHECKER_LOOP [''dev'', ''qa'']))) = 1
   \<and> fst (start_conversation
          \<lparr> sequential_chain_conversation = (\<lambda>t. (Raised (WorkerError ''worker timed out''), messages t)),
            concurrent_processing_conversation = (\<lambda>t. (Raised (WorkerError ''worker timed out''), messages t)),
            group_chat_debate_conversation = (\<lambda>t. (Propagated KeyboardInterrupt, messages t)),
            maker_checker_interrupt = None \<rparr>
          \<lparr>active_threads = Map.empty, conversation_history = []\<rparr>
          ''t3'' ''hello'' GROUP_CHAT_DEBATE [''react-expert'', ''python-expert''])
     = Inl KeyboardInterrupt
   \<and> map_option status (active_threads (snd (start_conversation
          \<lparr> sequential_chain_conversation = (\<lambda>t. (Raised (WorkerError ''worker timed out''), messages t)),
            concurrent_processing_conversation = (\<lambda>t. (Raised (WorkerError ''worker timed out''), messages t)),
            group_chat_debate_conversation = (\<lambda>t. (Propagated KeyboardInterrupt, messages t)),
            maker_checker_interrupt = None \<rparr>
          \<lparr>active_threads = Map.empty, conversation_history = []\<rparr>
          ''t3'' ''hello'' GROUP_CHAT_DEBATE [''react-expert'', ''python-expert''])) ''t3'')
     = Some active"
proof -
  let ?S = "\<lparr> sequential_chain_conversation = (\<lambda>t. (Raised (WorkerError ''worker timed out''), messages t)),
            concurrent_processing_conversation = (\<lambda>t. (Raised (WorkerError ''worker timed out''), messages t)),
            group_chat_debate_conversation = (\<lambda>t. (Propagated KeyboardInterrupt, messages t)),
            maker_checker_interrupt = None \<rparr>"
  let ?E = "\<lparr>active_threads = Map.empty, conversation_history = []\<rparr>"
  have e1: "fst (execute_pattern ?S SEQUENTIAL_CHAIN
      (new_thread ''t1'' ''hello'' SEQUENTIAL_CHAIN [''react-expert'']))
     = Raised (WorkerError ''worker timed out'')"
    by (simp add: execute_pattern_def)
  obtain result where r: "maker_checker_loop_conversation
      (new_thread ''t2'' ''build a form'' MAKER_CHECKER_LOOP [''dev'', ''qa'']) = Inr result"
    using maker_checker_loop_returns by blast
  then have e2: "fst (execute_pattern ?S MAKER_CHECKER_LOOP
      (new_thread ''t2'' ''build a form'' MAKER_CHECKER_LOOP [''dev'', ''qa''])) = Returned result"
    by (simp add: execute_pattern_def)
  have e3: "fst (execute_pattern ?S GROUP_CHAT_DEBATE
      (new_thread ''t3'' ''hello'' GROUP_CHAT_DEBATE [''react-expert'', ''python-expert'']))
     = Propagated KeyboardInterrupt"
    by (simp add: execute_pattern_def)
  have p1: "fst (start_conversation ?S ?E ''t1'' ''hello'' SEQUENTIAL_CHAIN [''react-expert''])
     = Inr \<lparr> thread_id = ''t1'', final_response = ''Conversation failed: worker timed out'',
             participating_experts = [''react-expert''], consensus_level = 0, message_count = 0,
             success = False, quality_metrics = [] \<rparr>
     \<and> map_option status (active_threads (snd (start_conversation ?S ?E ''t1'' ''hello''
          SEQUENTIAL_CHAIN [''react-expert''])) ''t1'') = Some failed"
    using start_conversation_outcomes
      [where S = ?S and p = SEQUENTIAL_CHAIN and i = "''t1''" and request = "''hello''"
         and experts = "[''react-expert'']" and e = "WorkerError ''worker timed out''"
         and self = ?E] e1
    by simp
  have p2: "map_option status (active_threads (snd (start_conversation ?S ?E ''t2''
          ''build a form'' MAKER_CHECKER_LOOP [''dev'', ''qa''])) ''t2'') = Some completed
     \<and> length (conversation_history (snd (start_conversation ?S ?E ''t2''
          ''build a form'' MAKER_CHECKER_LOOP [''dev'', ''qa'']))) = 1"
    using start_conversation_outcomes
      [where S = ?S and p = MAKER_CHECKER_LOOP and i = "''t2''" and request = "''build a form''"
         and experts = "[''dev'', ''qa'']" and result = result and self = ?E] e2
    by simp
  have p3: "fst (start_conversation ?S ?E ''t3'' ''hello'' GROUP_CHAT_DEBATE
          [''react-expert'', ''python-expert'']) = Inl KeyboardInterrupt
     \<and> map_option status (active_threads (snd (start_conversation ?S ?E ''t3'' ''hello''
          GROUP_CHAT_DEBATE [''react-expert'', ''python-expert''])) ''t3'') = Some active"
    using start_conversation_outcomes
      [where S = ?S and p = GROUP_CHAT_DEBATE and i = "''t3''" and request = "''hello''"
         and experts = "[''react-expert'', ''python-expert'']" and b = KeyboardInterrupt
         and self = ?E] e3
    by simp
  from p1 p2 p3 show ?thesis by (intro conjI) simp_all
qed

theorem start_conversation_cancelled_propagates:
  "fst (start_conversation
          \<lparr> sequential_chain_conversation = (\<lambda>t. (Raised (WorkerError ''worker timed out''), messages t)),
            concurrent_processing_conversation = (\<lambda>t. (Raised (WorkerError ''worker timed out''), messages t)),
            group_chat_debate_conversation = (\<lambda>t. (Raised (WorkerError ''worker timed out''), messages t)),
            maker_checker_interrupt = Some CancelledError \<rparr>
          \<lparr>active_threads = Map.empty, conversation_history = []\<rparr>
          ''t1'' ''build a form'' MAKER_CHECKER_LOOP [''dev'', ''qa'']) = Inl CancelledError
   \<and> map_option status (active_threads (snd (start_conversation
          \<lparr> sequential_chain_conversation = (\<lambda>t. (Raised (WorkerError ''worker timed out''), messages t)),
            concurrent_processing_conversation = (\<lambda>t. (Raised (WorkerError ''worker timed out''), messages t)),
            group_chat_debate_conversation = (\<lambda>t. (Raised (WorkerError ''worker timed out''), messages t)),
            maker_checker_interrupt = Some CancelledError \<rparr>
          \<lparr>active_threads = Map.empty, conversation_history = []\<rparr>
          ''t1'' ''build a form'' MAKER_CHECKER_LOOP [''dev'', ''qa''])) ''t1'') = Some active
   \<and> conversation_history (snd (start_conversation
          \<lparr> sequential_chain_conversation = (\<lambda>t. (Raised (WorkerError ''worker timed out''), messages t)),
            concurrent_processing_conversation = (\<lambda>t. (Raised (WorkerError ''worker timed out''), messages t)),
            group_chat_debate_conversation = (\<lambda>t. (Raised (WorkerError ''worker timed out''), messages t)),
            maker_checker_interrupt = Some CancelledError \<rparr>
          \<lparr>active_threads = Map.empty, conversation_history = []\<rparr>
          ''t1'' ''build a form'' MAKER_CHECKER_LOOP [''dev'', ''qa''])) = []"
  by (simp add: start_conversation_def execute_pattern_def Let_def new_thread_def)

end
